theory Spec2Isabelle
  imports Complex_Main "HOL-Library.Word" "HOL-Library.Sublist"
begin

section \<open>JavaScript values\<close>

text \<open>
  A JavaScript string is a sequence of UTF-16 code units; \<open>length\<close>, \<open>slice\<close>, the
  regular expressions and \<open>trim\<close> of the controllers all work on code units.
  \<open>js\<close> turns an ASCII literal into such a string.
\<close>

type_synonym jschar = "16 word"
type_synonym jsstring = "jschar list"

definition js :: "string \<Rightarrow> jsstring" where
  "js s = map of_char s"

text \<open>
  The values that \<open>response.json()\<close> and property access can produce. \<open>JUndefined\<close> is
  what reading an absent property gives. Numbers are carried as rationals (every finite
  double is one); only whether a number is zero matters to the controllers.
\<close>

datatype jsval =
    JUndefined
  | JNull
  | JBool bool
  | JNum rat
  | JStr jsstring
  | JArr "jsval list"
  | JObj "(jsstring \<times> jsval) list"

fun truthy :: "jsval \<Rightarrow> bool" where
  "truthy JUndefined = False"
| "truthy JNull = False"
| "truthy (JBool b) = b"
| "truthy (JNum x) = (x \<noteq> 0)"
| "truthy (JStr s) = (s \<noteq> [])"
| "truthy (JArr xs) = True"
| "truthy (JObj kvs) = True"

text \<open>\<open>xs[i]\<close> on an array: \<open>None\<close> stands for \<open>undefined\<close>, the value read out of range.\<close>

definition jsIndex :: "'a list \<Rightarrow> int \<Rightarrow> 'a option" where
  "jsIndex xs i = (if 0 \<le> i \<and> i < int (length xs) then Some (xs ! nat i) else None)"

section \<open>Parsing the judge's reply\<close>

definition isDigit :: "jschar \<Rightarrow> bool" where
  "isDigit c = (48 \<le> c \<and> c \<le> 57)"

text \<open>\<open>parseInt\<close> on a string of decimal digits; the value is kept exact.\<close>

definition parseInt :: "jsstring \<Rightarrow> nat" where
  "parseInt ds = foldl (\<lambda>a c. 10 * a + (unat c - 48)) 0 ds"

text \<open>\<open>text.match(/\d+/)\<close>: the leftmost maximal run of digits, \<open>[]\<close> when there is none.\<close>

definition firstDigitRun :: "jsstring \<Rightarrow> jsstring" where
  "firstDigitRun s = takeWhile isDigit (dropWhile (\<lambda>c. \<not> isDigit c) s)"

text \<open>\<open>Math.floor(Math.random() * candidateCount)\<close>, with the draw \<open>rnd\<close> made a parameter.\<close>

definition randomIndex :: "rat \<Rightarrow> nat \<Rightarrow> int" where
  "randomIndex rnd candidateCount = \<lfloor>rnd * of_nat candidateCount\<rfloor>"

text \<open>\<open>Math.max(0, Math.min(index, candidateCount - 1))\<close>.\<close>

definition clampIndex :: "nat \<Rightarrow> nat \<Rightarrow> int" where
  "clampIndex index candidateCount = max 0 (min (int index) (int candidateCount - 1))"

text \<open>
  \<open>parseBestIndex\<close> of \<open>backend/controllers/mlcontroler.js\<close>. A reply that is not a string
  has no \<open>match\<close> method: the call throws inside the \<open>try\<close> and the \<open>catch\<close> draws a
  random index, as it does when no digit is found.
\<close>

definition parseBestIndex_mlc :: "rat \<Rightarrow> jsval \<Rightarrow> nat \<Rightarrow> int" where
  "parseBestIndex_mlc rnd text candidateCount =
     (case text of
        JStr s \<Rightarrow>
          (let numberMatch = firstDigitRun s in
           if numberMatch = [] then randomIndex rnd candidateCount
           else clampIndex (parseInt numberMatch) candidateCount)
      | _ \<Rightarrow> randomIndex rnd candidateCount)"

text \<open>\<open>.replace(/["']/g, '')\<close>.\<close>

definition stripQuotes :: "jsstring \<Rightarrow> jsstring" where
  "stripQuotes s = filter (\<lambda>c. c \<noteq> 34 \<and> c \<noteq> 39) s"

text \<open>
  \<open>.replace(/option/gi, '')\<close>: one pass from the left; where the next six code units
  spell \<open>option\<close> in either case they are dropped and the scan goes on behind them.
\<close>

definition sameLetter :: "jschar \<Rightarrow> jschar \<Rightarrow> bool" where
  "sameLetter lower c = (c = lower \<or> c = lower - 32)"

definition startsWithOption :: "jsstring \<Rightarrow> bool" where
  "startsWithOption s = (6 \<le> length s \<and> list_all2 sameLetter (js ''option'') (take 6 s))"

function stripOption :: "jsstring \<Rightarrow> jsstring" where
  "stripOption [] = []"
| "stripOption (c # cs) =
     (if startsWithOption (c # cs) then stripOption (drop 5 cs) else c # stripOption cs)"
  by pat_completeness auto
termination
  by (relation "measure length") auto

text \<open>The white space and line terminators that \<open>trim\<close> removes.\<close>

definition isSpace :: "jschar \<Rightarrow> bool" where
  "isSpace c = (c \<in> {0x9, 0xA, 0xB, 0xC, 0xD, 0x20, 0xA0, 0x1680, 0x2028, 0x2029,
                      0x202F, 0x205F, 0x3000, 0xFEFF} \<or> (0x2000 \<le> c \<and> c \<le> 0x200A))"

definition trim :: "jsstring \<Rightarrow> jsstring" where
  "trim s = rev (dropWhile isSpace (rev (dropWhile isSpace s)))"

text \<open>
  \<open>parseBestIndex\<close> of \<open>unnamed/part_003\<close>: the cleaned reply has to match
  \<open>/^\d+$/\<close>, that is, to be a non-empty string of digits and nothing else.
\<close>

definition parseBestIndex_p3 :: "rat \<Rightarrow> jsval \<Rightarrow> nat \<Rightarrow> int" where
  "parseBestIndex_p3 rnd text candidateCount =
     (case text of
        JStr s \<Rightarrow>
          (let cleanText = trim (stripOption (stripQuotes s)) in
           if cleanText \<noteq> [] \<and> list_all isDigit cleanText
           then clampIndex (parseInt cleanText) candidateCount
           else randomIndex rnd candidateCount)
      | _ \<Rightarrow> randomIndex rnd candidateCount)"

section \<open>Heuristic selection by benchmark score\<close>

text \<open>
  The arithmetic of \<open>selectOptimalModel\<close> is carried out on rationals, with \<open>NaN\<close> for
  the result of arithmetic on a requirement that is absent or not a number; any operation
  with a \<open>NaN\<close> operand gives \<open>NaN\<close>, and every comparison with \<open>NaN\<close> is false.
\<close>

datatype jsnum = NaN | Num rat

fun lift2 :: "(rat \<Rightarrow> rat \<Rightarrow> rat) \<Rightarrow> jsnum \<Rightarrow> jsnum \<Rightarrow> jsnum" where
  "lift2 f (Num x) (Num y) = Num (f x y)"
| "lift2 f _ _ = NaN"

record benchmarks =
  bm_reasoning :: rat
  bm_coding :: rat
  bm_math :: rat
  bm_context :: "rat option"
  bm_speed :: "rat option"
  bm_efficiency :: "rat option"

record expert =
  expertise :: jsstring
  benchmarks :: benchmarks

record requirements =
  req_coding :: jsnum
  req_reasoning :: jsnum
  req_math :: jsnum
  req_context :: jsnum

text \<open>The registry, in the order in which \<open>Object.entries\<close> lists its keys.\<close>

definition EXPERT_MODELS :: "(jsstring \<times> expert) list" where
  "EXPERT_MODELS =
    [(js ''meta/llama3-70b-instruct'',
      \<lparr>expertise = js ''General Knowledge & Complex Reasoning'',
       benchmarks = \<lparr>bm_reasoning = 921 / 10, bm_coding = 843 / 10, bm_math = 887 / 10,
                     bm_context = Some 128000, bm_speed = None, bm_efficiency = None\<rparr>\<rparr>),
     (js ''google/gemma-7b'',
      \<lparr>expertise = js ''Efficient Code Generation'',
       benchmarks = \<lparr>bm_reasoning = 854 / 10, bm_coding = 892 / 10, bm_math = 821 / 10,
                     bm_context = Some 8192, bm_speed = Some 214, bm_efficiency = None\<rparr>\<rparr>),
     (js ''deepseek-ai/deepseek-r1-distill-llama-8b'',
      \<lparr>expertise = js ''Technical Coding & Mathematics'',
       benchmarks = \<lparr>bm_reasoning = 916 / 10, bm_coding = 942 / 10, bm_math = 934 / 10,
                     bm_context = Some 128000, bm_speed = None,
                     bm_efficiency = Some (48 / 10)\<rparr>\<rparr>)]"

text \<open>\<open>model.benchmarks.context || 4096\<close>: an absent or zero context gives 4096.\<close>

definition contextCap :: "benchmarks \<Rightarrow> rat" where
  "contextCap b = (case bm_context b of None \<Rightarrow> 4096 | Some c \<Rightarrow> if c = 0 then 4096 else c)"

definition modelScore :: "expert \<Rightarrow> requirements \<Rightarrow> jsnum" where
  "modelScore model requirements =
     (let cap = contextCap (benchmarks model);
          ctxWeight = lift2 min (lift2 (/) (req_context requirements) (Num cap)) (Num 1)
      in lift2 (+)
           (lift2 (+)
              (lift2 (+)
                 (lift2 (*) (Num (bm_coding (benchmarks model)))
                            (lift2 (/) (req_coding requirements) (Num 100)))
                 (lift2 (*) (Num (bm_reasoning (benchmarks model)))
                            (lift2 (/) (req_reasoning requirements) (Num 100))))
              (lift2 (*) (Num (bm_math (benchmarks model)))
                         (lift2 (/) (req_math requirements) (Num 100))))
           (lift2 (*) ctxWeight (Num 25)))"

text \<open>\<open>score > bestScore\<close>, where \<open>None\<close> is the initial \<open>-Infinity\<close>.\<close>

fun scoreGreater :: "jsnum \<Rightarrow> rat option \<Rightarrow> bool" where
  "scoreGreater NaN _ = False"
| "scoreGreater (Num s) None = True"
| "scoreGreater (Num s) (Some b) = (b < s)"

text \<open>The body of the \<open>forEach\<close>; the state is \<open>(bestScore, bestModel)\<close>, \<open>None\<close> for \<open>null\<close>.\<close>

definition considerModel ::
  "requirements \<Rightarrow> rat option \<times> jsstring option \<Rightarrow> jsstring \<times> expert
     \<Rightarrow> rat option \<times> jsstring option" where
  "considerModel requirements best entry =
     (case modelScore (snd entry) requirements of
        Num s \<Rightarrow> if scoreGreater (Num s) (fst best) then (Some s, Some (fst entry)) else best
      | NaN \<Rightarrow> best)"

definition defaultModel :: jsstring where
  "defaultModel = js ''meta/llama3-70b-instruct''"

text \<open>
  \<open>selectOptimalModel\<close> over a given registry; the last line is
  \<open>bestModel || 'meta/llama3-70b-instruct'\<close>, in which an empty id counts as absent.
\<close>

definition selectOptimalModel_over ::
  "(jsstring \<times> expert) list \<Rightarrow> requirements \<Rightarrow> jsstring" where
  "selectOptimalModel_over registry requirements =
     (case snd (foldl (considerModel requirements) (None, None) registry) of
        None \<Rightarrow> defaultModel
      | Some bestModel \<Rightarrow> if bestModel = [] then defaultModel else bestModel)"

definition selectOptimalModel :: "requirements \<Rightarrow> jsstring" where
  "selectOptimalModel requirements = selectOptimalModel_over EXPERT_MODELS requirements"


section \<open>Errors, responses and the world the controllers act on\<close>

text \<open>
  What a \<open>throw\<close> or a rejected promise carries. \<open>ApiError\<close> is the \<open>Error\<close> built from
  a response that is not ok: its status and the leading part of its body.
\<close>

datatype js_error =
    FetchFailed jsstring
  | ApiError nat jsstring
  | BodyNotJson
  | TypeError
  | InvalidFormat

text \<open>
  A response has a status, the text of its body and, when the body is JSON, the value
  that \<open>response.json()\<close> resolves to. A \<open>fetch\<close> either rejects (network failure, or
  the abort fired by the timeout) or resolves to a response.
\<close>

record http_response =
  res_status :: nat
  res_text :: jsstring
  res_json :: "jsval option"

datatype fetch_outcome = Rejected jsstring | Responded http_response

definition responseOk :: "http_response \<Rightarrow> bool" where
  "responseOk r = (200 \<le> res_status r \<and> res_status r \<le> 299)"

text \<open>
  What the platform and the network supply: the outcome of the k-th chat-completion
  request made for a given model and prompt, the outcome of the request to Gemini, the draw of \<open>Math.random()\<close>, the
  conversion of a value that is not a number to a number, \<open>JSON.parse\<close>,
  \<open>Buffer.from(s).toString('base64url')\<close>, the fields that the spread of
  \<open>NODE_ENV === 'development' && {...}\<close> adds to an error body, and the clock.
\<close>

record host =
  modelApi :: "jsstring \<Rightarrow> jsstring \<Rightarrow> nat \<Rightarrow> fetch_outcome"
  geminiApi :: fetch_outcome
  mathRandom :: rat
  toNumber :: "jsval \<Rightarrow> jsnum"
  jsonParse :: "jsstring \<Rightarrow> jsval option"
  base64url :: "jsstring \<Rightarrow> jsstring"
  errorDetails :: "js_error \<Rightarrow> (jsstring \<times> jsval) list"
  elapsedMs :: rat
  dateNow :: rat

datatype limiter = AnalysisLimiter | ModelLimiter | JudgeLimiter

text \<open>The effects of the controllers, logged in the order in which they happen.\<close>

datatype event =
    CacheLookup jsstring
  | CacheStore jsstring jsval
  | ModelFetch jsstring jsstring
  | Sleep nat
  | GeminiFetch
  | RemoveTokens limiter nat

record world =
  modelCache :: "jsstring \<Rightarrow> jsval option"
  events :: "event list"

definition logEvent :: "event \<Rightarrow> world \<Rightarrow> world" where
  "logEvent e w = w\<lparr>events := events w @ [e]\<rparr>"

fun isModelFetch :: "event \<Rightarrow> bool" where
  "isModelFetch (ModelFetch model prompt) = True"
| "isModelFetch _ = False"

definition fetchCount :: "world \<Rightarrow> nat" where
  "fetchCount w = length (filter isModelFetch (events w))"

text \<open>The number of requests made so far for a given model and prompt.\<close>

definition requestsOf :: "jsstring \<Rightarrow> jsstring \<Rightarrow> world \<Rightarrow> nat" where
  "requestsOf model prompt w = count_list (events w) (ModelFetch model prompt)"

section \<open>Reading a property\<close>

definition nullish :: "jsval \<Rightarrow> bool" where
  "nullish v = (v = JUndefined \<or> v = JNull)"

text \<open>
  \<open>v.name\<close> for the names the controllers read from a response (\<open>choices\<close>,
  \<open>message\<close>, \<open>content\<close>, \<open>candidates\<close>, \<open>parts\<close>, \<open>text\<close>), none of which an array, a
  string, a number or a boolean has. An object is the list of its properties, each key
  once. On \<open>undefined\<close> and \<open>null\<close> the result is \<open>undefined\<close>, which is what the
  optional chain \<open>v?.name\<close> gives.
\<close>

fun readProp :: "jsval \<Rightarrow> jsstring \<Rightarrow> jsval" where
  "readProp (JObj kvs) name = (case map_of kvs name of None \<Rightarrow> JUndefined | Some v \<Rightarrow> v)"
| "readProp _ name = JUndefined"

text \<open>\<open>v[0]\<close>, and \<open>v?.[0]\<close> on \<open>undefined\<close> and \<open>null\<close>.\<close>

fun elem0 :: "jsval \<Rightarrow> jsval" where
  "elem0 (JArr xs) = (case xs of [] \<Rightarrow> JUndefined | x # _ \<Rightarrow> x)"
| "elem0 (JStr s) = (case s of [] \<Rightarrow> JUndefined | c # _ \<Rightarrow> JStr [c])"
| "elem0 (JObj kvs) = (case map_of kvs (js ''0'') of None \<Rightarrow> JUndefined | Some v \<Rightarrow> v)"
| "elem0 _ = JUndefined"

text \<open>The plain accesses \<open>v.name\<close> and \<open>v[0]\<close> throw a \<open>TypeError\<close> on \<open>undefined\<close> and \<open>null\<close>.\<close>

definition getProp :: "jsval \<Rightarrow> jsstring \<Rightarrow> js_error + jsval" where
  "getProp v name = (if nullish v then Inl TypeError else Inr (readProp v name))"

definition getElem0 :: "jsval \<Rightarrow> js_error + jsval" where
  "getElem0 v = (if nullish v then Inl TypeError else Inr (elem0 v))"

definition thenE :: "'e + 'a \<Rightarrow> ('a \<Rightarrow> 'e + 'b) \<Rightarrow> 'e + 'b" where
  "thenE r f = (case r of Inl e \<Rightarrow> Inl e | Inr v \<Rightarrow> f v)"

text \<open>\<open>data.choices[0].message.content\<close>.\<close>

definition contentOf :: "jsval \<Rightarrow> js_error + jsval" where
  "contentOf data =
     thenE (getProp data (js ''choices'')) (\<lambda>choices.
     thenE (getElem0 choices) (\<lambda>choice.
     thenE (getProp choice (js ''message'')) (\<lambda>message.
     getProp message (js ''content''))))"

text \<open>\<open>data?.choices?.[0]?.message?.content\<close>.\<close>

definition optContentOf :: "jsval \<Rightarrow> jsval" where
  "optContentOf data = readProp (readProp (elem0 (readProp data (js ''choices''))) (js ''message'')) (js ''content'')"

section \<open>The model invoker and its cache\<close>

text \<open>
  What follows the \<open>fetch\<close> in \<open>callModel\<close> of \<open>mlcontroler.js\<close> and in
  \<open>generateWithNvidia\<close>, which differ in how much of an error body they keep.
\<close>

definition readCompletion :: "nat \<Rightarrow> fetch_outcome \<Rightarrow> js_error + jsval" where
  "readCompletion keep outcome =
     (case outcome of
        Rejected msg \<Rightarrow> Inl (FetchFailed msg)
      | Responded response \<Rightarrow>
          if \<not> responseOk response
          then Inl (ApiError (res_status response) (take keep (res_text response)))
          else (case res_json response of
                  None \<Rightarrow> Inl BodyNotJson
                | Some data \<Rightarrow> contentOf data))"

text \<open>The same in \<open>callModel\<close> of \<open>part_003\<close>, which checks the payload first.\<close>

definition readCompletion_p3 :: "fetch_outcome \<Rightarrow> js_error + jsval" where
  "readCompletion_p3 outcome =
     (case outcome of
        Rejected msg \<Rightarrow> Inl (FetchFailed msg)
      | Responded response \<Rightarrow>
          if \<not> responseOk response
          then Inl (ApiError (res_status response) (take 100 (res_text response)))
          else (case res_json response of
                  None \<Rightarrow> Inl BodyNotJson
                | Some data \<Rightarrow>
                    if \<not> truthy (optContentOf data) then Inl InvalidFormat
                    else contentOf data))"

text \<open>
  The frame the three invokers share: look the key up and return on a hit; on a miss
  issue the request, and store the result only when reading the response gave one. The
  \<open>catch\<close> logs the error and throws it again.
\<close>

definition lookupOrFetch ::
  "jsstring \<Rightarrow> (fetch_outcome \<Rightarrow> js_error + jsval) \<Rightarrow> host \<Rightarrow> jsstring \<Rightarrow> jsstring \<Rightarrow> world
     \<Rightarrow> (js_error + jsval) \<times> world" where
  "lookupOrFetch cacheKey read h model prompt w =
     (let w1 = logEvent (CacheLookup cacheKey) w in
      case modelCache w1 cacheKey of
        Some cached \<Rightarrow> (Inr cached, w1)
      | None \<Rightarrow>
          (let w2 = logEvent (ModelFetch model prompt) w1 in
           case read (modelApi h model prompt (requestsOf model prompt w1)) of
             Inl error \<Rightarrow> (Inl error, w2)
           | Inr result \<Rightarrow>
               (Inr result,
                logEvent (CacheStore cacheKey result)
                  (w2\<lparr>modelCache := (modelCache w2)(cacheKey \<mapsto> result)\<rparr>))))"

text \<open>The cache keys: \<open>`${model}-${prompt}`\<close> and \<open>`${model}-${base64url of prompt}`\<close>.\<close>

definition cacheKey_plain :: "jsstring \<Rightarrow> jsstring \<Rightarrow> jsstring" where
  "cacheKey_plain model prompt = model @ js ''-'' @ prompt"

definition cacheKey_b64 :: "host \<Rightarrow> jsstring \<Rightarrow> jsstring \<Rightarrow> jsstring" where
  "cacheKey_b64 h model prompt = model @ js ''-'' @ base64url h prompt"

definition callModel_mlc ::
  "host \<Rightarrow> jsstring \<Rightarrow> jsstring \<Rightarrow> world \<Rightarrow> (js_error + jsval) \<times> world" where
  "callModel_mlc h model prompt =
     lookupOrFetch (cacheKey_plain model prompt) (readCompletion 100) h model prompt"

definition callModel_p3 ::
  "host \<Rightarrow> jsstring \<Rightarrow> jsstring \<Rightarrow> world \<Rightarrow> (js_error + jsval) \<times> world" where
  "callModel_p3 h model prompt =
     lookupOrFetch (cacheKey_b64 h model prompt) readCompletion_p3 h model prompt"

definition generateWithNvidia ::
  "host \<Rightarrow> jsstring \<Rightarrow> jsstring \<Rightarrow> world \<Rightarrow> (js_error + jsval) \<times> world" where
  "generateWithNvidia h modelId prompt =
     lookupOrFetch (cacheKey_b64 h modelId prompt) (readCompletion 200) h modelId prompt"

section \<open>The retry wrapper\<close>

text \<open>
  The loop of \<open>callModelWithRetry\<close>, from a given value of \<open>attempt\<close>. A loop that ends
  without a \<open>return\<close> makes the function return \<open>undefined\<close>.
\<close>

function retryLoop ::
  "(world \<Rightarrow> (js_error + jsval) \<times> world) \<Rightarrow> nat \<Rightarrow> nat \<Rightarrow> nat \<Rightarrow> world
     \<Rightarrow> (js_error + jsval) \<times> world" where
  "retryLoop call retryDelay retries attempt w =
     (if attempt \<le> retries then
        (case call w of
           (Inr result, w') \<Rightarrow> (Inr result, w')
         | (Inl error, w') \<Rightarrow>
             if attempt = retries then (Inl error, w')
             else retryLoop call retryDelay retries (attempt + 1)
                    (logEvent (Sleep (retryDelay * (attempt + 1))) w'))
      else (Inr JUndefined, w))"
  by pat_completeness auto
termination
  by (relation "measure (\<lambda>(call, retryDelay, retries, attempt, w). Suc retries - attempt)") auto

declare retryLoop.simps [simp del]

definition callModelWithRetry_mlc ::
  "host \<Rightarrow> jsstring \<Rightarrow> jsstring \<Rightarrow> nat \<Rightarrow> world \<Rightarrow> (js_error + jsval) \<times> world" where
  "callModelWithRetry_mlc h model prompt retries =
     retryLoop (callModel_mlc h model prompt) 2000 retries 0"

definition JUDGE_CONFIG_maxRetries :: nat where
  "JUDGE_CONFIG_maxRetries = 3"

definition JUDGE_CONFIG_retryDelay :: nat where
  "JUDGE_CONFIG_retryDelay = 2000"

definition callModelWithRetry_p3 ::
  "host \<Rightarrow> jsstring \<Rightarrow> jsstring \<Rightarrow> nat \<Rightarrow> world \<Rightarrow> (js_error + jsval) \<times> world" where
  "callModelWithRetry_p3 h model prompt retries =
     retryLoop (callModel_p3 h model prompt) JUDGE_CONFIG_retryDelay retries 0"

section \<open>Reading the log, and hosts and payloads to run the controllers on\<close>

text \<open>
  The events of \<open>retries + 1\<close> attempts that all miss the cache and fail: a lookup and a
  request each, and a wait after every attempt but the last.
\<close>

definition attemptsTrace :: "jsstring \<Rightarrow> jsstring \<Rightarrow> jsstring \<Rightarrow> nat \<Rightarrow> nat \<Rightarrow> event list" where
  "attemptsTrace cacheKey model prompt retryDelay retries =
     concat (map (\<lambda>k. [CacheLookup cacheKey, ModelFetch model prompt]
                       @ (if k < retries then [Sleep (retryDelay * (k + 1))] else []))
                 [0..<Suc retries])"

text \<open>The waits of a log, in order.\<close>

fun sleepsOf :: "event list \<Rightarrow> nat list" where
  "sleepsOf [] = []"
| "sleepsOf (Sleep ms # evs) = ms # sleepsOf evs"
| "sleepsOf (e # evs) = sleepsOf evs"

definition emptyWorld :: world where
  "emptyWorld = \<lparr>modelCache = Map.empty, events = []\<rparr>"

text \<open>
  A host with a given model backend, judge and draw; the identity stands in for the
  base64url encoding, and no number conversion, JSON parser or error detail is supplied.
\<close>

definition testHost ::
  "(jsstring \<Rightarrow> jsstring \<Rightarrow> nat \<Rightarrow> fetch_outcome) \<Rightarrow> fetch_outcome \<Rightarrow> rat \<Rightarrow> host" where
  "testHost api gemini rnd =
     \<lparr>modelApi = api, geminiApi = gemini, mathRandom = rnd, toNumber = (\<lambda>v. NaN),
      jsonParse = (\<lambda>s. None), base64url = (\<lambda>s. s), errorDetails = (\<lambda>e. []),
      elapsedMs = 0, dateNow = 0\<rparr>"

text \<open>A 200 response whose body is \<open>{choices: [{message: {content: ...}}]}\<close>.\<close>

definition completion :: "jsval \<Rightarrow> fetch_outcome" where
  "completion content =
     Responded \<lparr>res_status = 200, res_text = [],
       res_json = Some (JObj [(js ''choices'',
                    JArr [JObj [(js ''message'', JObj [(js ''content'', content)])]])])\<rparr>"

text \<open>A 200 response whose body is \<open>{choices: [{message: {}}]}\<close>.\<close>

definition completionWithoutContent :: fetch_outcome where
  "completionWithoutContent =
     Responded \<lparr>res_status = 200, res_text = [],
       res_json = Some (JObj [(js ''choices'', JArr [JObj [(js ''message'', JObj [])]])])\<rparr>"

text \<open>A host on which every request is rejected.\<close>

definition downHost :: host where
  "downHost = testHost (\<lambda>model prompt k. Rejected (js ''down'')) (Rejected (js ''down'')) 0"

text \<open>
  Hosts whose model backend always answers \<open>hello\<close>, rejects the first request only,
  and answers without a \<open>content\<close>; and the world after one successful call on the
  empty cache.
\<close>

definition steadyHost :: host where
  "steadyHost = testHost (\<lambda>model prompt k. completion (JStr (js ''hello''))) (Rejected (js ''down'')) 0"

definition flakyHost :: host where
  "flakyHost = testHost (\<lambda>model prompt k. if k = 0 then Rejected (js ''timeout'') else completion (JStr (js ''hello'')))
                 (Rejected (js ''down'')) 0"

definition hollowHost :: host where
  "hollowHost = testHost (\<lambda>model prompt k. completionWithoutContent) (Rejected (js ''down'')) 0"

definition cachedWorld :: world where
  "cachedWorld =
     \<lparr>modelCache = [js ''m-p'' \<mapsto> JStr (js ''hello'')],
      events = [CacheLookup (js ''m-p''), ModelFetch (js ''m'') (js ''p''),
                CacheStore (js ''m-p'') (JStr (js ''hello''))]\<rparr>"

section \<open>The fan-out\<close>

definition MODEL_LIST :: "jsstring list" where
  "MODEL_LIST = [js ''meta/llama3-70b-instruct'', js ''google/gemma-7b'',
                 js ''deepseek-ai/deepseek-r1-distill-llama-8b'']"

record candidate =
  cand_model :: jsstring
  cand_content :: jsval
  cand_timestamp :: "rat option"

text \<open>
  \<open>Promise.allSettled\<close> over the calls started by \<open>MODEL_LIST.map\<close>: one settled result
  for each model, in the order of the list, whatever the order in which the calls end.
  In the code the calls proceed together and their steps interleave. A call for a model
  reads and writes the cache only under the key of that model, and the outcome of a
  request is that of the k-th request for its own model and prompt, so no call sees what
  another does: each result is the one the call gives when run alone (proved below as
  \<open>settleAll_independent\<close>). The world returned lists the events call by call; the
  code's log has the same events of each call, in the same order within the call.
\<close>

fun settleAll ::
  "(jsstring \<Rightarrow> world \<Rightarrow> (js_error + jsval) \<times> world) \<Rightarrow> jsstring list \<Rightarrow> world
     \<Rightarrow> (js_error + jsval) list \<times> world" where
  "settleAll call [] w = ([], w)"
| "settleAll call (model # models) w =
     (case call model w of
        (result, w1) \<Rightarrow>
          (case settleAll call models w1 of
             (results, w2) \<Rightarrow> (result # results, w2)))"

text \<open>
  Lines 26 to 30 of \<open>mlcontroler.js\<close>: a fulfilled result with a truthy value becomes a
  candidate under the model of the same index, anything else \<open>null\<close>, and
  \<open>filter(Boolean)\<close> drops the \<open>null\<close>s.
\<close>

definition candidatesOf_mlc :: "jsstring list \<Rightarrow> (js_error + jsval) list \<Rightarrow> candidate list" where
  "candidatesOf_mlc models results =
     List.map_filter
       (\<lambda>(model, result).
          case result of
            Inr v \<Rightarrow> if truthy v
                     then Some \<lparr>cand_model = model, cand_content = v, cand_timestamp = None\<rparr>
                     else None
          | Inl reason \<Rightarrow> None)
       (zip models results)"

text \<open>Lines 21 to 30 of \<open>mlcontroler.js\<close>, the fan-out inside \<open>judgeAndGenerate\<close>.\<close>

definition fanOut_mlc :: "host \<Rightarrow> jsstring \<Rightarrow> world \<Rightarrow> candidate list \<times> world" where
  "fanOut_mlc h prompt w =
     (case settleAll (\<lambda>model. callModelWithRetry_mlc h model prompt 2) MODEL_LIST w of
        (results, w1) \<Rightarrow> (candidatesOf_mlc MODEL_LIST results, w1))"

text \<open>
  \<open>content?.length\<close>, and \<open>v >= 20\<close> for the value so read: a number is compared as it
  is, \<open>undefined\<close> compares false, anything else is first converted by the platform.
\<close>

fun lengthOf :: "jsval \<Rightarrow> jsval" where
  "lengthOf (JStr s) = JNum (of_nat (length s))"
| "lengthOf (JArr xs) = JNum (of_nat (length xs))"
| "lengthOf (JObj kvs) = readProp (JObj kvs) (js ''length'')"
| "lengthOf _ = JUndefined"

definition atLeast20 :: "host \<Rightarrow> jsval \<Rightarrow> bool" where
  "atLeast20 h v =
     (case v of
        JNum x \<Rightarrow> 20 \<le> x
      | JUndefined \<Rightarrow> False
      | _ \<Rightarrow> (case toNumber h v of Num x \<Rightarrow> 20 \<le> x | NaN \<Rightarrow> False))"

text \<open>\<open>getModelResponses\<close> of \<open>part_003\<close>.\<close>

definition candidatesOf_p3 ::
  "host \<Rightarrow> jsstring list \<Rightarrow> (js_error + jsval) list \<Rightarrow> candidate list" where
  "candidatesOf_p3 h models results =
     List.map_filter
       (\<lambda>(model, result).
          case result of
            Inr v \<Rightarrow> if atLeast20 h (lengthOf v)
                     then Some \<lparr>cand_model = model, cand_content = v,
                                cand_timestamp = Some (dateNow h)\<rparr>
                     else None
          | Inl reason \<Rightarrow> None)
       (zip models results)"

definition getModelResponses :: "host \<Rightarrow> jsstring \<Rightarrow> world \<Rightarrow> candidate list \<times> world" where
  "getModelResponses h prompt w =
     (case settleAll (\<lambda>model. callModelWithRetry_p3 h model prompt JUDGE_CONFIG_maxRetries)
             MODEL_LIST w of
        (results, w1) \<Rightarrow> (candidatesOf_p3 h MODEL_LIST results, w1))"

section \<open>The judge\<close>

text \<open>
  Building the judge prompt calls \<open>c.content.slice\<close> on every candidate, which throws
  unless the content is a string or an array.
\<close>

fun sliceable :: "jsval \<Rightarrow> bool" where
  "sliceable (JStr s) = True"
| "sliceable (JArr xs) = True"
| "sliceable _ = False"

definition canBuildJudgePrompt :: "candidate list \<Rightarrow> bool" where
  "canBuildJudgePrompt candidates = list_all (\<lambda>c. sliceable (cand_content c)) candidates"

text \<open>\<open>data?.candidates?.[0]?.content?.parts?.[0]?.text\<close>.\<close>

definition optTextOf :: "jsval \<Rightarrow> jsval" where
  "optTextOf data =
     readProp (elem0 (readProp (readProp (elem0 (readProp data (js ''candidates'')))
                                  (js ''content''))
                        (js ''parts'')))
       (js ''text'')"

text \<open>
  From the \<open>fetch\<close> of the judge to \<open>responseText\<close>; \<open>kept\<close> is what the error message
  keeps of the body of a response that is not ok.
\<close>

definition judgeReply :: "(jsstring \<Rightarrow> jsstring) \<Rightarrow> fetch_outcome \<Rightarrow> js_error + jsval" where
  "judgeReply kept outcome =
     (case outcome of
        Rejected msg \<Rightarrow> Inl (FetchFailed msg)
      | Responded response \<Rightarrow>
          if \<not> responseOk response
          then Inl (ApiError (res_status response) (kept (res_text response)))
          else (case res_json response of
                  None \<Rightarrow> Inl BodyNotJson
                | Some data \<Rightarrow>
                    Inr (if truthy (optTextOf data) then optTextOf data else JStr [])))"

text \<open>The \<open>try\<close> block of \<open>judgeResponses\<close> up to \<open>responseText\<close>, in both controllers.\<close>

definition askJudge ::
  "(jsstring \<Rightarrow> jsstring) \<Rightarrow> host \<Rightarrow> candidate list \<Rightarrow> world \<Rightarrow> (js_error + jsval) \<times> world" where
  "askJudge kept h candidates w =
     (if canBuildJudgePrompt candidates
      then (judgeReply kept (geminiApi h), logEvent GeminiFetch w)
      else (Inl TypeError, w))"

text \<open>\<open>judgeResponses\<close> of \<open>mlcontroler.js\<close>; \<open>None\<close> is \<open>undefined\<close>.\<close>

definition judgeResponses_mlc ::
  "host \<Rightarrow> jsstring \<Rightarrow> candidate list \<Rightarrow> world \<Rightarrow> candidate option \<times> world" where
  "judgeResponses_mlc h prompt candidates w =
     (case askJudge (\<lambda>s. s) h candidates w of
        (Inr responseText, w1) \<Rightarrow>
          (jsIndex candidates
             (parseBestIndex_mlc (mathRandom h) responseText (length candidates)), w1)
      | (Inl error, w1) \<Rightarrow>
          (jsIndex candidates (randomIndex (mathRandom h) (length candidates)), w1))"

definition weightedRandomSelect :: "candidate list \<Rightarrow> candidate option" where
  "weightedRandomSelect candidates = jsIndex candidates 0"

text \<open>\<open>judgeResponses\<close> of \<open>part_003\<close>, which first takes a token from its limiter.\<close>

definition judgeResponses_p3 ::
  "host \<Rightarrow> jsstring \<Rightarrow> candidate list \<Rightarrow> world \<Rightarrow> candidate option \<times> world" where
  "judgeResponses_p3 h prompt candidates w =
     (case askJudge (take 100) h candidates (logEvent (RemoveTokens JudgeLimiter 1) w) of
        (Inr responseText, w1) \<Rightarrow>
          (jsIndex candidates
             (parseBestIndex_p3 (mathRandom h) responseText (length candidates)), w1)
      | (Inl error, w1) \<Rightarrow> (weightedRandomSelect candidates, w1))"

section \<open>The request coordinators\<close>

text \<open>
  A reply is a status and the object handed to \<open>res.json\<close>, as the list of its fields.
  A request is its \<open>prompt\<close>, \<open>None\<close> when the body has none.
\<close>

record http_reply =
  status :: nat
  body :: "(jsstring \<times> jsval) list"

definition bestBody :: "host \<Rightarrow> candidate \<Rightarrow> candidate list \<Rightarrow> (jsstring \<times> jsval) list" where
  "bestBody h best candidates =
     [(js ''bestResponse'', cand_content best),
      (js ''chosenModel'', JStr (cand_model best)),
      (js ''responseTime'', JNum (elapsedMs h)),
      (js ''candidates'', JArr (map (\<lambda>c. JStr (cand_model c)) candidates))]"

text \<open>\<open>judgeAndGenerate\<close> of \<open>mlcontroler.js\<close>; \<open>!prompt\<close> holds of an absent and of an empty prompt.\<close>

definition judgeAndGenerate_mlc :: "host \<Rightarrow> jsstring option \<Rightarrow> world \<Rightarrow> http_reply \<times> world" where
  "judgeAndGenerate_mlc h prompt w =
     (case prompt of
        None \<Rightarrow> (\<lparr>status = 400, body = [(js ''error'', JStr (js ''Prompt is required''))]\<rparr>, w)
      | Some p \<Rightarrow>
          if p = []
          then (\<lparr>status = 400, body = [(js ''error'', JStr (js ''Prompt is required''))]\<rparr>, w)
          else
            (case fanOut_mlc h p w of
               (candidates, w1) \<Rightarrow>
                 if candidates = []
                 then (\<lparr>status = 500,
                         body = [(js ''error'', JStr (js ''All model calls failed''))]\<rparr>, w1)
                 else
                   (case judgeResponses_mlc h p candidates w1 of
                      (Some best, w2) \<Rightarrow>
                        (\<lparr>status = 200, body = bestBody h best candidates\<rparr>, w2)
                    | (None, w2) \<Rightarrow>
                        (\<lparr>status = 500,
                          body = (js ''error'', JStr (js ''Processing error''))
                                   # errorDetails h TypeError\<rparr>, w2))))"

text \<open>\<open>judgeAndGenerate\<close> of \<open>part_003\<close>; \<open>!prompt?.trim()\<close>.\<close>

definition judgeAndGenerate_p3 :: "host \<Rightarrow> jsstring option \<Rightarrow> world \<Rightarrow> http_reply \<times> world" where
  "judgeAndGenerate_p3 h prompt w =
     (case prompt of
        None \<Rightarrow>
          (\<lparr>status = 400, body = [(js ''error'', JStr (js ''Non-empty prompt is required''))]\<rparr>, w)
      | Some p \<Rightarrow>
          if trim p = []
          then (\<lparr>status = 400,
                  body = [(js ''error'', JStr (js ''Non-empty prompt is required''))]\<rparr>, w)
          else
            (case getModelResponses h p w of
               (candidates, w1) \<Rightarrow>
                 if candidates = []
                 then (\<lparr>status = 503,
                         body = [(js ''error'', JStr (js ''All model providers failed'')),
                                 (js ''mitigation'',
                                  JStr (js ''Try again with a different prompt''))]\<rparr>, w1)
                 else
                   (case judgeResponses_p3 h p candidates w1 of
                      (Some best, w2) \<Rightarrow>
                        (\<lparr>status = 200, body = bestBody h best candidates\<rparr>, w2)
                    | (None, w2) \<Rightarrow>
                        (\<lparr>status = 500,
                          body = (js ''error'', JStr (js ''Processing error''))
                                   # errorDetails h TypeError\<rparr>, w2))))"

section \<open>Analyze, select, generate\<close>

text \<open>\<open>s.replace(/pat/g, '')\<close> for a literal, non-empty pattern: one pass from the left.\<close>

function removeAll :: "jsstring \<Rightarrow> jsstring \<Rightarrow> jsstring" where
  "removeAll pat [] = []"
| "removeAll pat (c # cs) =
     (if pat \<noteq> [] \<and> prefix pat (c # cs)
      then removeAll pat (drop (length pat - 1) cs)
      else c # removeAll pat cs)"
  by pat_completeness auto
termination
  by (relation "measure (\<lambda>(pat, s). length s)") auto

definition defaultRequirements :: jsval where
  "defaultRequirements =
     JObj [(js ''coding'', JNum 50), (js ''reasoning'', JNum 50), (js ''math'', JNum 50),
           (js ''context'', JNum 50)]"

text \<open>\<open>data.candidates[0].content.parts[0].text\<close>.\<close>

definition textOf :: "jsval \<Rightarrow> js_error + jsval" where
  "textOf data =
     thenE (getProp data (js ''candidates'')) (\<lambda>candidates.
     thenE (getElem0 candidates) (\<lambda>candidate.
     thenE (getProp candidate (js ''content'')) (\<lambda>content.
     thenE (getProp content (js ''parts'')) (\<lambda>parts.
     thenE (getElem0 parts) (\<lambda>part.
     getProp part (js ''text''))))))"

text \<open>
  \<open>analyzeWithGemini\<close>: whatever goes wrong on the way (a rejected request, a response
  that is not ok, a body that is not JSON, a missing text, a text that is not a string or
  that \<open>JSON.parse\<close> refuses) is caught and replaced by the default requirements.
\<close>

definition analyzeWithGemini :: "host \<Rightarrow> jsstring \<Rightarrow> world \<Rightarrow> jsval \<times> world" where
  "analyzeWithGemini h prompt w =
     (let w1 = logEvent GeminiFetch w in
      case geminiApi h of
        Rejected msg \<Rightarrow> (defaultRequirements, w1)
      | Responded response \<Rightarrow>
          if \<not> responseOk response then (defaultRequirements, w1)
          else (case res_json response of
                  None \<Rightarrow> (defaultRequirements, w1)
                | Some data \<Rightarrow>
                    (case textOf data of
                       Inr (JStr txt) \<Rightarrow>
                         (case jsonParse h (removeAll (js ''```'') (removeAll (js ''```json'') txt)) of
                            Some parsed \<Rightarrow> (parsed, w1)
                          | None \<Rightarrow> (defaultRequirements, w1))
                     | _ \<Rightarrow> (defaultRequirements, w1))))"

text \<open>
  The requirements as \<open>selectOptimalModel\<close> reads them from the analysis: a field that is
  a number as it is, an absent field as \<open>NaN\<close>, any other value converted by the platform.
  Reading a field of \<open>null\<close> or \<open>undefined\<close> throws.
\<close>

definition reqField :: "host \<Rightarrow> jsval \<Rightarrow> jsstring \<Rightarrow> jsnum" where
  "reqField h requirements name =
     (case readProp requirements name of
        JNum x \<Rightarrow> Num x
      | JUndefined \<Rightarrow> NaN
      | v \<Rightarrow> toNumber h v)"

definition requirementsOf :: "host \<Rightarrow> jsval \<Rightarrow> requirements" where
  "requirementsOf h v =
     \<lparr>req_coding = reqField h v (js ''coding''), req_reasoning = reqField h v (js ''reasoning''),
      req_math = reqField h v (js ''math''), req_context = reqField h v (js ''context'')\<rparr>"

definition selectOptimalModel_js :: "host \<Rightarrow> jsval \<Rightarrow> js_error + jsstring" where
  "selectOptimalModel_js h requirements =
     (if nullish requirements then Inl TypeError
      else Inr (selectOptimalModel (requirementsOf h requirements)))"

definition optField :: "string \<Rightarrow> rat option \<Rightarrow> (jsstring \<times> jsval) list" where
  "optField name v = (case v of None \<Rightarrow> [] | Some x \<Rightarrow> [(js name, JNum x)])"

definition benchmarksJson :: "benchmarks \<Rightarrow> jsval" where
  "benchmarksJson b =
     JObj ([(js ''reasoning'', JNum (bm_reasoning b)), (js ''coding'', JNum (bm_coding b)),
            (js ''math'', JNum (bm_math b))]
           @ optField ''context'' (bm_context b) @ optField ''speed'' (bm_speed b)
           @ optField ''efficiency'' (bm_efficiency b))"

text \<open>\<open>llmController\<close>.\<close>

definition llmController :: "host \<Rightarrow> jsstring option \<Rightarrow> world \<Rightarrow> http_reply \<times> world" where
  "llmController h prompt w =
     (case prompt of
        None \<Rightarrow> (\<lparr>status = 400, body = [(js ''error'', JStr (js ''Prompt required''))]\<rparr>, w)
      | Some p \<Rightarrow>
          if trim p = []
          then (\<lparr>status = 400, body = [(js ''error'', JStr (js ''Prompt required''))]\<rparr>, w)
          else
            (case analyzeWithGemini h p (logEvent (RemoveTokens AnalysisLimiter 1) w) of
               (requirements, w1) \<Rightarrow>
                 (case selectOptimalModel_js h requirements of
                    Inl error \<Rightarrow>
                      (\<lparr>status = 500,
                        body = (js ''error'', JStr (js ''Processing failed''))
                                 # errorDetails h error\<rparr>, w1)
                  | Inr modelId \<Rightarrow>
                      (case generateWithNvidia h modelId p
                              (logEvent (RemoveTokens ModelLimiter 1) w1) of
                         (Inl error, w2) \<Rightarrow>
                           (\<lparr>status = 500,
                             body = (js ''error'', JStr (js ''Processing failed''))
                                      # errorDetails h error\<rparr>, w2)
                       | (Inr response, w2) \<Rightarrow>
                           (case map_of EXPERT_MODELS modelId of
                              None \<Rightarrow>
                                (\<lparr>status = 500,
                                  body = (js ''error'', JStr (js ''Processing failed''))
                                           # errorDetails h TypeError\<rparr>, w2)
                            | Some modelInfo \<Rightarrow>
                                (\<lparr>status = 200,
                                  body = [(js ''response'', response),
                                          (js ''model'',
                                           JObj [(js ''id'', JStr modelId),
                                                 (js ''expertise'', JStr (expertise modelInfo)),
                                                 (js ''benchmarks'',
                                                  benchmarksJson (benchmarks modelInfo))]),
                                          (js ''analysis'', requirements),
                                          (js ''responseTime'', JNum (elapsedMs h))]\<rparr>,
                                 w2))))))"

text \<open>
  A host on which every request for the first model of the registry is rejected and the
  other models answer; and a host on which the first model answers at its third request
  and the other two at their second.
\<close>

definition llamaDownHost :: host where
  "llamaDownHost =
     testHost (\<lambda>model prompt k.
                 if model = js ''meta/llama3-70b-instruct'' then Rejected (js ''down'')
                 else completion (JStr (js ''a reply of more than twenty units'')))
       (Rejected (js ''down'')) 0"

definition staggeredHost :: host where
  "staggeredHost =
     testHost (\<lambda>model prompt k.
                 if k < (if model = js ''meta/llama3-70b-instruct'' then 2 else 1)
                 then Rejected (js ''down'')
                 else completion (JStr (js ''a reply of more than twenty units'')))
       (Rejected (js ''down'')) 0"

text \<open>
  What a call for a model and a prompt reads of the world: the cache entry under its key
  and the number of requests already made for that model and prompt.
\<close>

definition sameView :: "jsstring \<Rightarrow> jsstring \<Rightarrow> jsstring \<Rightarrow> world \<Rightarrow> world \<Rightarrow> bool" where
  "sameView cacheKey model prompt w v =
     (modelCache w cacheKey = modelCache v cacheKey
      \<and> requestsOf model prompt w = requestsOf model prompt v)"

text \<open>The settled results that the two fan-outs turn into a candidate.\<close>

definition kept_mlc :: "js_error + jsval \<Rightarrow> bool" where
  "kept_mlc result = (case result of Inr v \<Rightarrow> truthy v | Inl reason \<Rightarrow> False)"

definition kept_p3 :: "host \<Rightarrow> js_error + jsval \<Rightarrow> bool" where
  "kept_p3 h result = (case result of Inr v \<Rightarrow> atLeast20 h (lengthOf v) | Inl reason \<Rightarrow> False)"

text \<open>
  A reply of the judge with a given text, a host whose judge is down, a host whose judge
  answers \<open>none\<close>, both drawing 1/2, and two candidates.
\<close>

definition judgeSays :: "jsstring \<Rightarrow> fetch_outcome" where
  "judgeSays reply =
     Responded \<lparr>res_status = 200, res_text = [],
       res_json = Some (JObj [(js ''candidates'',
                    JArr [JObj [(js ''content'',
                      JObj [(js ''parts'', JArr [JObj [(js ''text'', JStr reply)]])])]])])\<rparr>"

definition judgeDownHost :: host where
  "judgeDownHost = testHost (\<lambda>model prompt k. completion (JStr (js ''a reply of more than twenty units'')))
                     (Rejected (js ''down'')) (1 / 2)"

definition muddledHost :: host where
  "muddledHost = testHost (\<lambda>model prompt k. completion (JStr (js ''a reply of more than twenty units'')))
                   (judgeSays (js ''none'')) (1 / 2)"

definition twoCandidates :: "candidate list" where
  "twoCandidates =
     [\<lparr>cand_model = js ''google/gemma-7b'', cand_content = JStr (js ''first answer''),
       cand_timestamp = None\<rparr>,
      \<lparr>cand_model = js ''deepseek-ai/deepseek-r1-distill-llama-8b'',
       cand_content = JStr (js ''second answer''), cand_timestamp = None\<rparr>]"

section \<open>The index is always in range\<close>

lemma randomIndex_range:
  assumes "0 \<le> rnd" "rnd < 1" "1 \<le> n"
  shows "0 \<le> randomIndex rnd n \<and> randomIndex rnd n < int n"
proof -
  have pos: "(0::rat) < of_nat n" using assms(3) by simp
  have "0 \<le> rnd * of_nat n" using assms(1) by simp
  then have lo: "0 \<le> randomIndex rnd n" by (simp add: randomIndex_def)
  have "rnd * of_nat n < 1 * of_nat n"
    using assms(2) pos by (rule mult_strict_right_mono)
  then have "rnd * of_nat n < of_int (int n)" by simp
  then have "randomIndex rnd n < int n"
    unfolding randomIndex_def by (simp only: floor_less_iff)
  with lo show ?thesis by simp
qed

lemma clampIndex_range:
  "1 \<le> n \<Longrightarrow> 0 \<le> clampIndex i n \<and> clampIndex i n < int n"
  by (simp add: clampIndex_def)

lemma parseBestIndex_mlc_range:
  assumes "0 \<le> rnd" "rnd < 1" "1 \<le> n"
  shows "0 \<le> parseBestIndex_mlc rnd reply n \<and> parseBestIndex_mlc rnd reply n < int n"
  using randomIndex_range [OF assms] clampIndex_range [OF assms(3)]
  by (cases reply) (simp_all add: parseBestIndex_mlc_def Let_def)

lemma parseBestIndex_p3_range:
  assumes "0 \<le> rnd" "rnd < 1" "1 \<le> n"
  shows "0 \<le> parseBestIndex_p3 rnd reply n \<and> parseBestIndex_p3 rnd reply n < int n"
  using randomIndex_range [OF assms] clampIndex_range [OF assms(3)]
  by (cases reply) (simp_all add: parseBestIndex_p3_def Let_def)

lemma jsIndex_in_range:
  "0 \<le> i \<Longrightarrow> i < int (length xs) \<Longrightarrow> \<exists>x. jsIndex xs i = Some x \<and> x \<in> set xs"
  by (simp add: jsIndex_def)

text \<open>
  Claim C1. For a candidate list of length \<open>n \<ge> 1\<close>, any reply of the judge (a string of
  any content, or no string at all) and any draw of \<open>Math.random()\<close>, at least 0 and
  below 1, the
  index computed by \<open>parseBestIndex\<close>, in both controllers, lies between 0 and \<open>n - 1\<close>, and
  \<open>candidates[index]\<close> is an element of the candidate list.
\<close>

theorem parseBestIndex_in_bounds:
  assumes "0 \<le> rnd" and "rnd < 1" and "candidates \<noteq> []"
  shows "0 \<le> parseBestIndex_mlc rnd reply (length candidates)
       \<and> parseBestIndex_mlc rnd reply (length candidates) \<le> int (length candidates) - 1
       \<and> (\<exists>c. jsIndex candidates (parseBestIndex_mlc rnd reply (length candidates)) = Some c
              \<and> c \<in> set candidates)
       \<and> 0 \<le> parseBestIndex_p3 rnd reply (length candidates)
       \<and> parseBestIndex_p3 rnd reply (length candidates) \<le> int (length candidates) - 1
       \<and> (\<exists>c. jsIndex candidates (parseBestIndex_p3 rnd reply (length candidates)) = Some c
              \<and> c \<in> set candidates)"
proof -
  from assms(3) have n: "1 \<le> length candidates" by (cases candidates) simp_all
  note a = parseBestIndex_mlc_range [OF assms(1,2) n, of reply]
  note b = parseBestIndex_p3_range [OF assms(1,2) n, of reply]
  from a have a': "\<exists>c. jsIndex candidates (parseBestIndex_mlc rnd reply (length candidates)) = Some c
              \<and> c \<in> set candidates"
    by (intro jsIndex_in_range) simp_all
  from b have b': "\<exists>c. jsIndex candidates (parseBestIndex_p3 rnd reply (length candidates)) = Some c
              \<and> c \<in> set candidates"
    by (intro jsIndex_in_range) simp_all
  from a b a' b' show ?thesis by simp
qed

lemmas parse_eval = parseBestIndex_mlc_def parseBestIndex_p3_def firstDigitRun_def parseInt_def
  clampIndex_def randomIndex_def isDigit_def js_def stripQuotes_def startsWithOption_def
  sameLetter_def trim_def isSpace_def Let_def

theorem parseBestIndex_in_bounds_witness:
  "(0::rat) \<le> 1 / 2 \<and> (1 / 2 :: rat) < 1 \<and> [10, 20, 30 :: nat] \<noteq> []
   \<and> parseBestIndex_mlc (1 / 2) (JStr (js ''pick 7'')) (length [10, 20, 30 :: nat]) = 2
   \<and> parseBestIndex_p3 (1 / 2) (JStr (js ''pick 7'')) (length [10, 20, 30 :: nat]) = 1
   \<and> jsIndex [10, 20, 30 :: nat] 2 = Some 30"
  using parseBestIndex_in_bounds [of "1 / 2" "[10, 20, 30 :: nat]" "JStr (js ''pick 7'')"]
  by (simp add: parse_eval jsIndex_def floor_eq_iff)

section \<open>A reply with words around the number\<close>

lemma firstDigitRun_decompose:
  assumes "\<forall>c \<in> set pre. \<not> isDigit c" and "ds \<noteq> []" and "\<forall>c \<in> set ds. isDigit c"
    and "post = [] \<or> \<not> isDigit (hd post)"
  shows "firstDigitRun (pre @ ds @ post) = ds"
proof -
  obtain d ds' where ds: "ds = d # ds'" using assms(2) by (cases ds) auto
  with assms(3) have d: "isDigit d" by simp
  have "dropWhile (\<lambda>c. \<not> isDigit c) (pre @ ds @ post) = ds @ post"
    using assms(1) d ds by (simp add: dropWhile_append3)
  moreover have "takeWhile isDigit (ds @ post) = ds"
  proof (cases post)
    case Nil
    then show ?thesis using assms(3) by simp
  next
    case (Cons p ps)
    with assms(4) have "\<not> isDigit p" by simp
    with Cons assms(3) show ?thesis by (simp add: takeWhile_tail)
  qed
  ultimately show ?thesis by (simp add: firstDigitRun_def)
qed




section \<open>The heuristic selector\<close>







lemma js_eq_Nil: "js s = [] \<longleftrightarrow> s = []"
  by (simp add: js_def)





section \<open>The cache and the retry loop\<close>

lemma fetchCount_logEvent:
  "fetchCount (logEvent e w) = (if isModelFetch e then Suc (fetchCount w) else fetchCount w)"
  by (simp add: fetchCount_def logEvent_def)

lemma requestsOf_logEvent:
  "requestsOf model prompt (logEvent e w)
     = (if e = ModelFetch model prompt then Suc (requestsOf model prompt w)
        else requestsOf model prompt w)"
  by (simp add: requestsOf_def logEvent_def)

lemma modelCache_logEvent: "modelCache (logEvent e w) = modelCache w"
  by (simp add: logEvent_def)

lemma events_logEvent: "events (logEvent e w) = events w @ [e]"
  by (simp add: logEvent_def)

lemma lookupOrFetch_hit:
  assumes "modelCache w cacheKey = Some cached"
  shows "lookupOrFetch cacheKey read h model prompt w = (Inr cached, logEvent (CacheLookup cacheKey) w)"
  using assms by (simp add: lookupOrFetch_def Let_def modelCache_logEvent)

lemma lookupOrFetch_miss_fail:
  assumes "modelCache w cacheKey = None" and "read (modelApi h model prompt (requestsOf model prompt w)) = Inl error"
  shows "lookupOrFetch cacheKey read h model prompt w =
           (Inl error, logEvent (ModelFetch model prompt) (logEvent (CacheLookup cacheKey) w))"
  using assms by (simp add: lookupOrFetch_def Let_def modelCache_logEvent requestsOf_logEvent)

lemma lookupOrFetch_miss_ok:
  assumes "modelCache w cacheKey = None" and "read (modelApi h model prompt (requestsOf model prompt w)) = Inr result"
  shows "lookupOrFetch cacheKey read h model prompt w =
           (Inr result,
            logEvent (CacheStore cacheKey result)
              ((logEvent (ModelFetch model prompt) (logEvent (CacheLookup cacheKey) w))
                 \<lparr>modelCache := (modelCache w)(cacheKey \<mapsto> result)\<rparr>))"
  using assms by (simp add: lookupOrFetch_def Let_def modelCache_logEvent requestsOf_logEvent)

lemma lookupOrFetch_success_cached:
  assumes "lookupOrFetch cacheKey read h model prompt w = (Inr result, w')"
  shows "modelCache w' cacheKey = Some result"
proof (cases "modelCache w cacheKey")
  case None
  show ?thesis
  proof (cases "read (modelApi h model prompt (requestsOf model prompt w))")
    case (Inl e)
    from lookupOrFetch_miss_fail [where read = read and h = h and model = model and prompt = prompt, OF None Inl] assms show ?thesis by simp
  next
    case (Inr r)
    from lookupOrFetch_miss_ok [where read = read and h = h and model = model and prompt = prompt, OF None Inr] assms show ?thesis
      by (auto simp: modelCache_logEvent)
  qed
next
  case (Some c)
  from lookupOrFetch_hit [where read = read and h = h and model = model and prompt = prompt, OF Some] assms show ?thesis
    by (auto simp: modelCache_logEvent Some)
qed

lemma lookupOrFetch_failure_cache:
  assumes "lookupOrFetch cacheKey read h model prompt w = (Inl error, w')"
  shows "modelCache w' = modelCache w \<and> modelCache w cacheKey = None
       \<and> read (modelApi h model prompt (requestsOf model prompt w)) = Inl error
       \<and> events w' = events w @ [CacheLookup cacheKey, ModelFetch model prompt]"
proof (cases "modelCache w cacheKey")
  case None
  show ?thesis
  proof (cases "read (modelApi h model prompt (requestsOf model prompt w))")
    case (Inl e)
    from lookupOrFetch_miss_fail [where read = read and h = h and model = model and prompt = prompt, OF None Inl] assms None Inl show ?thesis
      by (auto simp: modelCache_logEvent events_logEvent)
  next
    case (Inr r)
    from lookupOrFetch_miss_ok [where read = read and h = h and model = model and prompt = prompt, OF None Inr] assms show ?thesis by simp
  qed
next
  case (Some c)
  from lookupOrFetch_hit [where read = read and h = h and model = model and prompt = prompt, OF Some] assms show ?thesis by simp
qed

lemma lookupOrFetch_twice:
  assumes "lookupOrFetch cacheKey read h model prompt w = (Inr result, w1)"
  shows "lookupOrFetch cacheKey read h model prompt w1 = (Inr result, logEvent (CacheLookup cacheKey) w1)"
  by (rule lookupOrFetch_hit) (rule lookupOrFetch_success_cached [OF assms])

lemma lookupOrFetch_fetchCount:
  "fetchCount (snd (lookupOrFetch cacheKey read h model prompt w)) \<le> Suc (fetchCount w)"
  by (simp add: lookupOrFetch_def Let_def modelCache_logEvent fetchCount_logEvent fetchCount_def logEvent_def
        split: option.splits sum.splits)


lemma logEvent_twice:
  "logEvent e2 (logEvent e1 w) = w\<lparr>events := events w @ [e1, e2]\<rparr>"
  by (simp add: logEvent_def)

lemma retryLoop_all_fail:
  assumes "attempt \<le> retries"
    and "modelCache w cacheKey = None"
    and "\<forall>k. attempt \<le> k \<and> k \<le> retries \<longrightarrow>
           (\<exists>e. read (modelApi h model prompt (requestsOf model prompt w + (k - attempt))) = Inl e)"
  shows "retryLoop (lookupOrFetch cacheKey read h model prompt) retryDelay retries attempt w =
     (read (modelApi h model prompt (requestsOf model prompt w + (retries - attempt))),
      w\<lparr>events := events w @
          concat (map (\<lambda>k. [CacheLookup cacheKey, ModelFetch model prompt]
                            @ (if k < retries then [Sleep (retryDelay * (k + 1))] else []))
                      [attempt..<Suc retries])\<rparr>)"
  using assms
proof (induction "retries - attempt" arbitrary: attempt w)
  case 0
  then have eq: "attempt = retries" by simp
  from "0.prems"(3) eq obtain e where e: "read (modelApi h model prompt (requestsOf model prompt w)) = Inl e"
    by force
  have call: "lookupOrFetch cacheKey read h model prompt w =
           (Inl e, logEvent (ModelFetch model prompt) (logEvent (CacheLookup cacheKey) w))"
    using "0.prems"(2) e by (rule lookupOrFetch_miss_fail)
  show ?case
    by (subst retryLoop.simps) (simp add: eq call e logEvent_twice)
next
  case (Suc n)
  then have lt: "attempt < retries" by simp
  from Suc.prems(3) lt obtain e where e: "read (modelApi h model prompt (requestsOf model prompt w)) = Inl e"
    by force
  have call: "lookupOrFetch cacheKey read h model prompt w =
           (Inl e, logEvent (ModelFetch model prompt) (logEvent (CacheLookup cacheKey) w))"
    using Suc.prems(2) e by (rule lookupOrFetch_miss_fail)
  let ?w3 = "logEvent (Sleep (retryDelay * (attempt + 1)))
               (logEvent (ModelFetch model prompt) (logEvent (CacheLookup cacheKey) w))"
  have cache3: "modelCache ?w3 cacheKey = None"
    using Suc.prems(2) by (simp add: modelCache_logEvent)
  have count3: "requestsOf model prompt ?w3 = Suc (requestsOf model prompt w)"
    by (simp add: requestsOf_logEvent)
  have fails3: "\<forall>k. attempt + 1 \<le> k \<and> k \<le> retries \<longrightarrow>
           (\<exists>e. read (modelApi h model prompt (requestsOf model prompt ?w3 + (k - (attempt + 1)))) = Inl e)"
  proof (intro allI impI)
    fix k assume k: "attempt + 1 \<le> k \<and> k \<le> retries"
    then have "requestsOf model prompt ?w3 + (k - (attempt + 1)) = requestsOf model prompt w + (k - attempt)"
      using count3 by arith
    moreover from Suc.prems(3) k have "\<exists>e. read (modelApi h model prompt (requestsOf model prompt w + (k - attempt))) = Inl e"
      by simp
    ultimately show "\<exists>e. read (modelApi h model prompt (requestsOf model prompt ?w3 + (k - (attempt + 1)))) = Inl e"
      by simp
  qed
  have n: "n = retries - (attempt + 1)" using Suc.hyps(2) by simp
  have le: "attempt + 1 \<le> retries" using lt by simp
  note IH = Suc.hyps(1) [OF n le cache3 fails3]
  have idx: "requestsOf model prompt ?w3 + (retries - (attempt + 1))
               = requestsOf model prompt w + (retries - attempt)"
    using lt count3 by arith
  have upt: "[attempt..<Suc retries] = attempt # [attempt + 1..<Suc retries]"
    using lt by (simp add: upt_conv_Cons)
  have step: "retryLoop (lookupOrFetch cacheKey read h model prompt) retryDelay retries attempt w =
      retryLoop (lookupOrFetch cacheKey read h model prompt) retryDelay retries (attempt + 1) ?w3"
    using lt by (subst retryLoop.simps) (simp add: call)
  show ?case
    unfolding step IH idx upt using lt by (simp add: logEvent_def)
qed

lemma attemptsTrace_split:
  "attemptsTrace cacheKey model prompt retryDelay retries =
     concat (map (\<lambda>k. [CacheLookup cacheKey, ModelFetch model prompt, Sleep (retryDelay * (k + 1))])
                 [0..<retries])
     @ [CacheLookup cacheKey, ModelFetch model prompt]"
proof -
  let ?F = "\<lambda>k. [CacheLookup cacheKey, ModelFetch model prompt]
                       @ (if k < retries then [Sleep (retryDelay * (k + 1))] else [])"
  let ?G = "\<lambda>k. [CacheLookup cacheKey, ModelFetch model prompt, Sleep (retryDelay * (k + 1))]"
  have same: "map ?F [0..<retries] = map ?G [0..<retries]"
    by (rule map_cong) simp_all
  have "attemptsTrace cacheKey model prompt retryDelay retries
          = concat (map ?F [0..<retries]) @ ?F retries"
    unfolding attemptsTrace_def by simp
  also have "\<dots> = concat (map ?G [0..<retries]) @ [CacheLookup cacheKey, ModelFetch model prompt]"
    unfolding same by simp
  finally show ?thesis .
qed

lemma fetches_of_rounds:
  "length (filter isModelFetch
     (concat (map (\<lambda>k. [CacheLookup cacheKey, ModelFetch model prompt, Sleep (f k)]) ks)))
   = length ks"
  by (induction ks) simp_all

lemma sleeps_of_rounds:
  "sleepsOf (concat (map (\<lambda>k. [CacheLookup cacheKey, ModelFetch model prompt, Sleep (f k)]) ks))
   = map f ks"
  by (induction ks) simp_all

lemma sleepsOf_append: "sleepsOf (xs @ ys) = sleepsOf xs @ sleepsOf ys"
  by (induction xs rule: sleepsOf.induct) simp_all

lemma attemptsTrace_fetches:
  "length (filter isModelFetch (attemptsTrace cacheKey model prompt retryDelay retries)) = retries + 1"
  by (simp add: attemptsTrace_split fetches_of_rounds)

lemma attemptsTrace_sleeps:
  "sleepsOf (attemptsTrace cacheKey model prompt retryDelay retries)
     = map (\<lambda>k. retryDelay * (k + 1)) [0..<retries]"
  by (simp add: attemptsTrace_split sleepsOf_append sleeps_of_rounds)

lemma retry_all_fail:
  assumes "modelCache w cacheKey = None"
    and "\<forall>k \<le> retries. \<exists>e. read (modelApi h model prompt (requestsOf model prompt w + k)) = Inl e"
  shows "retryLoop (lookupOrFetch cacheKey read h model prompt) retryDelay retries 0 w =
     (read (modelApi h model prompt (requestsOf model prompt w + retries)),
      w\<lparr>events := events w @ attemptsTrace cacheKey model prompt retryDelay retries\<rparr>)"
proof -
  have "\<forall>k. 0 \<le> k \<and> k \<le> retries \<longrightarrow>
           (\<exists>e. read (modelApi h model prompt (requestsOf model prompt w + (k - 0))) = Inl e)"
    using assms(2) by simp
  from retryLoop_all_fail [where read = read and h = h and model = model and prompt = prompt
      and retryDelay = retryDelay, OF _ assms(1) this]
  show ?thesis by (simp add: attemptsTrace_def)
qed


lemmas run_eval = lookupOrFetch_def readCompletion_def readCompletion_p3_def contentOf_def
  optContentOf_def getProp_def getElem0_def thenE_def nullish_def responseOk_def
  logEvent_def fetchCount_def requestsOf_def cacheKey_plain_def cacheKey_b64_def callModel_mlc_def
  callModel_p3_def generateWithNvidia_def testHost_def emptyWorld_def completion_def
  completionWithoutContent_def Let_def js_def

text \<open>
  Claim C5. When the cache has no entry for the call and each of the next \<open>retries + 1\<close>
  requests fails, \<open>callModelWithRetry\<close> (in both controllers) ends with the error of the
  last of these requests, unchanged. It has then made exactly \<open>retries + 1\<close> attempts, a
  cache lookup and a request each, and after the k-th attempt, for every k but the last,
  it has waited \<open>2000 * k\<close> milliseconds before the next one.
\<close>

theorem callModelWithRetry_all_fail:
  "(modelCache w (cacheKey_plain model prompt) = None
      \<and> (\<forall>k \<le> retries. \<exists>e. readCompletion 100 (modelApi h model prompt (requestsOf model prompt w + k)) = Inl e)
    \<longrightarrow> callModelWithRetry_mlc h model prompt retries w =
          (readCompletion 100 (modelApi h model prompt (requestsOf model prompt w + retries)),
           w\<lparr>events := events w @ attemptsTrace (cacheKey_plain model prompt) model prompt 2000 retries\<rparr>))
   \<and> (modelCache w (cacheKey_b64 h model prompt) = None
      \<and> (\<forall>k \<le> retries. \<exists>e. readCompletion_p3 (modelApi h model prompt (requestsOf model prompt w + k)) = Inl e)
    \<longrightarrow> callModelWithRetry_p3 h model prompt retries w =
          (readCompletion_p3 (modelApi h model prompt (requestsOf model prompt w + retries)),
           w\<lparr>events := events w @ attemptsTrace (cacheKey_b64 h model prompt) model prompt 2000 retries\<rparr>))
   \<and> length (filter isModelFetch (attemptsTrace cacheKey model prompt 2000 retries)) = retries + 1
   \<and> sleepsOf (attemptsTrace cacheKey model prompt 2000 retries)
        = map (\<lambda>k. 2000 * (k + 1)) [0..<retries]"
proof (intro conjI impI)
  assume a: "modelCache w (cacheKey_plain model prompt) = None
      \<and> (\<forall>k \<le> retries. \<exists>e. readCompletion 100 (modelApi h model prompt (requestsOf model prompt w + k)) = Inl e)"
  then have miss: "modelCache w (cacheKey_plain model prompt) = None"
    and fails: "\<forall>k \<le> retries. \<exists>e. readCompletion 100 (modelApi h model prompt (requestsOf model prompt w + k)) = Inl e"
    by simp_all
  show "callModelWithRetry_mlc h model prompt retries w =
          (readCompletion 100 (modelApi h model prompt (requestsOf model prompt w + retries)),
           w\<lparr>events := events w @ attemptsTrace (cacheKey_plain model prompt) model prompt 2000 retries\<rparr>)"
    unfolding callModelWithRetry_mlc_def callModel_mlc_def
    using miss fails by (rule retry_all_fail)
next
  assume a: "modelCache w (cacheKey_b64 h model prompt) = None
      \<and> (\<forall>k \<le> retries. \<exists>e. readCompletion_p3 (modelApi h model prompt (requestsOf model prompt w + k)) = Inl e)"
  then have miss: "modelCache w (cacheKey_b64 h model prompt) = None"
    and fails: "\<forall>k \<le> retries. \<exists>e. readCompletion_p3 (modelApi h model prompt (requestsOf model prompt w + k)) = Inl e"
    by simp_all
  show "callModelWithRetry_p3 h model prompt retries w =
          (readCompletion_p3 (modelApi h model prompt (requestsOf model prompt w + retries)),
           w\<lparr>events := events w @ attemptsTrace (cacheKey_b64 h model prompt) model prompt 2000 retries\<rparr>)"
    unfolding callModelWithRetry_p3_def callModel_p3_def JUDGE_CONFIG_retryDelay_def
    using miss fails by (rule retry_all_fail)
next
  show "length (filter isModelFetch (attemptsTrace cacheKey model prompt 2000 retries)) = retries + 1"
    by (rule attemptsTrace_fetches)
next
  show "sleepsOf (attemptsTrace cacheKey model prompt 2000 retries)
        = map (\<lambda>k. 2000 * (k + 1)) [0..<retries]"
    by (rule attemptsTrace_sleeps)
qed

theorem callModelWithRetry_all_fail_witness:
  "modelCache emptyWorld (cacheKey_plain (js ''m'') (js ''p'')) = None
   \<and> readCompletion 100 (modelApi downHost (js ''m'') (js ''p'') 0) = Inl (FetchFailed (js ''down''))
   \<and> readCompletion 100 (modelApi downHost (js ''m'') (js ''p'') 1) = Inl (FetchFailed (js ''down''))
   \<and> readCompletion 100 (modelApi downHost (js ''m'') (js ''p'') 2) = Inl (FetchFailed (js ''down''))
   \<and> callModelWithRetry_mlc downHost (js ''m'') (js ''p'') 2 emptyWorld =
       (Inl (FetchFailed (js ''down'')),
        \<lparr>modelCache = Map.empty,
         events = [CacheLookup (js ''m-p''), ModelFetch (js ''m'') (js ''p''), Sleep 2000,
                   CacheLookup (js ''m-p''), ModelFetch (js ''m'') (js ''p''), Sleep 4000,
                   CacheLookup (js ''m-p''), ModelFetch (js ''m'') (js ''p'')]\<rparr>)
   \<and> modelCache emptyWorld (cacheKey_b64 downHost (js ''m'') (js ''p'')) = None
   \<and> readCompletion_p3 (modelApi downHost (js ''m'') (js ''p'') 0) = Inl (FetchFailed (js ''down''))
   \<and> readCompletion_p3 (modelApi downHost (js ''m'') (js ''p'') 1) = Inl (FetchFailed (js ''down''))
   \<and> readCompletion_p3 (modelApi downHost (js ''m'') (js ''p'') 2) = Inl (FetchFailed (js ''down''))
   \<and> callModelWithRetry_p3 downHost (js ''m'') (js ''p'') 2 emptyWorld =
       (Inl (FetchFailed (js ''down'')),
        \<lparr>modelCache = Map.empty,
         events = [CacheLookup (js ''m-p''), ModelFetch (js ''m'') (js ''p''), Sleep 2000,
                   CacheLookup (js ''m-p''), ModelFetch (js ''m'') (js ''p''), Sleep 4000,
                   CacheLookup (js ''m-p''), ModelFetch (js ''m'') (js ''p'')]\<rparr>)"
proof -
  have miss1: "modelCache emptyWorld (cacheKey_plain (js ''m'') (js ''p'')) = None"
    by (simp add: emptyWorld_def)
  have miss2: "modelCache emptyWorld (cacheKey_b64 downHost (js ''m'') (js ''p'')) = None"
    by (simp add: emptyWorld_def)
  have fails1: "\<forall>k \<le> 2. \<exists>e. readCompletion 100 (modelApi downHost (js ''m'') (js ''p'') (requestsOf (js ''m'') (js ''p'') emptyWorld + k)) = Inl e"
    by (simp add: downHost_def testHost_def readCompletion_def)
  have fails2: "\<forall>k \<le> 2. \<exists>e. readCompletion_p3 (modelApi downHost (js ''m'') (js ''p'') (requestsOf (js ''m'') (js ''p'') emptyWorld + k)) = Inl e"
    by (simp add: downHost_def testHost_def readCompletion_p3_def)
  have tr: "attemptsTrace cacheKey m p 2000 2 =
      [CacheLookup cacheKey, ModelFetch m p, Sleep 2000,
       CacheLookup cacheKey, ModelFetch m p, Sleep 4000,
       CacheLookup cacheKey, ModelFetch m p]" for cacheKey m p
    by (simp add: attemptsTrace_split upt_rec)
  note inst = callModelWithRetry_all_fail [of emptyWorld "js ''m''" "js ''p''" 2 downHost]
  from inst miss1 fails1
  have "callModelWithRetry_mlc downHost (js ''m'') (js ''p'') 2 emptyWorld =
          (readCompletion 100 (modelApi downHost (js ''m'') (js ''p'') (requestsOf (js ''m'') (js ''p'') emptyWorld + 2)),
           emptyWorld\<lparr>events := events emptyWorld
              @ attemptsTrace (cacheKey_plain (js ''m'') (js ''p'')) (js ''m'') (js ''p'') 2000 2\<rparr>)"
    by blast
  then have r1: "callModelWithRetry_mlc downHost (js ''m'') (js ''p'') 2 emptyWorld =
       (Inl (FetchFailed (js ''down'')),
        \<lparr>modelCache = Map.empty,
         events = [CacheLookup (js ''m-p''), ModelFetch (js ''m'') (js ''p''), Sleep 2000,
                   CacheLookup (js ''m-p''), ModelFetch (js ''m'') (js ''p''), Sleep 4000,
                   CacheLookup (js ''m-p''), ModelFetch (js ''m'') (js ''p'')]\<rparr>)"
    by (simp add: tr downHost_def testHost_def readCompletion_def
          emptyWorld_def cacheKey_plain_def js_def)
  from inst miss2 fails2
  have "callModelWithRetry_p3 downHost (js ''m'') (js ''p'') 2 emptyWorld =
          (readCompletion_p3 (modelApi downHost (js ''m'') (js ''p'') (requestsOf (js ''m'') (js ''p'') emptyWorld + 2)),
           emptyWorld\<lparr>events := events emptyWorld
              @ attemptsTrace (cacheKey_b64 downHost (js ''m'') (js ''p'')) (js ''m'') (js ''p'') 2000 2\<rparr>)"
    by blast
  then have r2: "callModelWithRetry_p3 downHost (js ''m'') (js ''p'') 2 emptyWorld =
       (Inl (FetchFailed (js ''down'')),
        \<lparr>modelCache = Map.empty,
         events = [CacheLookup (js ''m-p''), ModelFetch (js ''m'') (js ''p''), Sleep 2000,
                   CacheLookup (js ''m-p''), ModelFetch (js ''m'') (js ''p''), Sleep 4000,
                   CacheLookup (js ''m-p''), ModelFetch (js ''m'') (js ''p'')]\<rparr>)"
    by (simp add: tr downHost_def testHost_def readCompletion_p3_def
          emptyWorld_def cacheKey_b64_def js_def)
  have each1: "readCompletion 100 (modelApi downHost (js ''m'') (js ''p'') k) = Inl (FetchFailed (js ''down''))" for k
    by (simp add: downHost_def testHost_def readCompletion_def)
  have each2: "readCompletion_p3 (modelApi downHost (js ''m'') (js ''p'') k) = Inl (FetchFailed (js ''down''))" for k
    by (simp add: downHost_def testHost_def readCompletion_p3_def)
  from miss1 miss2 each1 each2 r1 r2 show ?thesis by blast
qed

section \<open>Calling a model twice\<close>

lemma lookupOrFetch_second:
  assumes "lookupOrFetch cacheKey read h model prompt w = (Inr v, w1)"
  shows "lookupOrFetch cacheKey read h model prompt w1 = (Inr v, logEvent (CacheLookup cacheKey) w1)
       \<and> fetchCount (snd (lookupOrFetch cacheKey read h model prompt w1)) \<le> Suc (fetchCount w)
       \<and> modelCache (snd (lookupOrFetch cacheKey read h model prompt w1)) = modelCache w1"
proof -
  have second: "lookupOrFetch cacheKey read h model prompt w1 = (Inr v, logEvent (CacheLookup cacheKey) w1)"
    using assms by (rule lookupOrFetch_twice)
  have "fetchCount w1 \<le> Suc (fetchCount w)"
    using lookupOrFetch_fetchCount [of cacheKey read h model prompt w] assms by simp
  with second show ?thesis by (simp add: fetchCount_logEvent modelCache_logEvent)
qed

text \<open>
  Claim C4, as the code has it. When an invocation of \<open>callModel\<close> (either controller) or
  of \<open>generateWithNvidia\<close> for a model and a prompt returns a value, the next invocation
  for the same model and prompt returns the same value after a cache lookup and nothing
  else: it issues no request and leaves the cache as it is, so that the two invocations
  issue at most one request. Every invocation looks the key up first and, when the cache
  holds it, returns the cached value at once.
\<close>

theorem callModel_second_call_cached:
  "(callModel_mlc h model prompt w = (Inr v, w1) \<longrightarrow>
      callModel_mlc h model prompt w1
        = (Inr v, logEvent (CacheLookup (cacheKey_plain model prompt)) w1)
      \<and> fetchCount (snd (callModel_mlc h model prompt w1)) \<le> Suc (fetchCount w)
      \<and> modelCache (snd (callModel_mlc h model prompt w1)) = modelCache w1)
   \<and> (callModel_p3 h model prompt w = (Inr v, w1) \<longrightarrow>
      callModel_p3 h model prompt w1
        = (Inr v, logEvent (CacheLookup (cacheKey_b64 h model prompt)) w1)
      \<and> fetchCount (snd (callModel_p3 h model prompt w1)) \<le> Suc (fetchCount w)
      \<and> modelCache (snd (callModel_p3 h model prompt w1)) = modelCache w1)
   \<and> (generateWithNvidia h model prompt w = (Inr v, w1) \<longrightarrow>
      generateWithNvidia h model prompt w1
        = (Inr v, logEvent (CacheLookup (cacheKey_b64 h model prompt)) w1)
      \<and> fetchCount (snd (generateWithNvidia h model prompt w1)) \<le> Suc (fetchCount w)
      \<and> modelCache (snd (generateWithNvidia h model prompt w1)) = modelCache w1)
   \<and> (modelCache w (cacheKey_plain model prompt) = Some c \<longrightarrow>
      callModel_mlc h model prompt w
        = (Inr c, logEvent (CacheLookup (cacheKey_plain model prompt)) w))
   \<and> (modelCache w (cacheKey_b64 h model prompt) = Some c \<longrightarrow>
      callModel_p3 h model prompt w
        = (Inr c, logEvent (CacheLookup (cacheKey_b64 h model prompt)) w)
      \<and> generateWithNvidia h model prompt w
        = (Inr c, logEvent (CacheLookup (cacheKey_b64 h model prompt)) w))"
  unfolding callModel_mlc_def callModel_p3_def generateWithNvidia_def
  using lookupOrFetch_second lookupOrFetch_hit by blast

lemma steady_first:
  "callModel_p3 steadyHost (js ''m'') (js ''p'') emptyWorld =
     (Inr (JStr (js ''hello'')),
      \<lparr>modelCache = [js ''m-p'' \<mapsto> JStr (js ''hello'')],
       events = [CacheLookup (js ''m-p''), ModelFetch (js ''m'') (js ''p''),
                 CacheStore (js ''m-p'') (JStr (js ''hello''))]\<rparr>)"
  by (simp add: run_eval steadyHost_def)

text \<open>
  When the first invocation fails, nothing is cached and the second one issues a request
  of its own: two invocations, two requests.
\<close>

theorem callModel_twice_counterexample:
  "\<not> fetchCount (snd (callModel_p3 flakyHost (js ''m'') (js ''p'')
                        (snd (callModel_p3 flakyHost (js ''m'') (js ''p'') emptyWorld)))) \<le> 1"
  by (simp add: run_eval flakyHost_def)

text \<open>
  An invocation that throws leaves the cache as it was, in all three invokers; and
  \<open>callModel\<close> of \<open>part_003\<close> changes the cache only by storing a truthy content.
\<close>

lemma invoker_failure_keeps_cache:
  "(callModel_mlc h model prompt w = (Inl error, w') \<longrightarrow> modelCache w' = modelCache w)
   \<and> (callModel_p3 h model prompt w = (Inl error, w') \<longrightarrow> modelCache w' = modelCache w)
   \<and> (generateWithNvidia h model prompt w = (Inl error, w') \<longrightarrow> modelCache w' = modelCache w)"
  unfolding callModel_mlc_def callModel_p3_def generateWithNvidia_def
  using lookupOrFetch_failure_cache by blast

lemma readCompletion_p3_truthy:
  "readCompletion_p3 outcome = Inr v \<Longrightarrow> truthy v"
  by (auto simp: readCompletion_p3_def contentOf_def optContentOf_def getProp_def getElem0_def
        thenE_def split: fetch_outcome.splits if_splits option.splits sum.splits)

lemma callModel_p3_stores_content_only:
  assumes "callModel_p3 h model prompt w = (r, w')" and "modelCache w' \<noteq> modelCache w"
  shows "\<exists>v. r = Inr v \<and> truthy v
           \<and> modelCache w' = (modelCache w)(cacheKey_b64 h model prompt \<mapsto> v)"
proof (cases "modelCache w (cacheKey_b64 h model prompt)")
  case (Some c)
  from lookupOrFetch_hit [where read = readCompletion_p3 and h = h and model = model
      and prompt = prompt, OF Some] assms
  show ?thesis by (auto simp: callModel_p3_def modelCache_logEvent)
next
  case None
  show ?thesis
  proof (cases "readCompletion_p3 (modelApi h model prompt (requestsOf model prompt w))")
    case (Inl e)
    from lookupOrFetch_miss_fail [where read = readCompletion_p3 and h = h and model = model
        and prompt = prompt, OF None Inl] assms
    show ?thesis by (auto simp: callModel_p3_def modelCache_logEvent)
  next
    case (Inr v)
    from lookupOrFetch_miss_ok [where read = readCompletion_p3 and h = h and model = model
        and prompt = prompt, OF None Inr] assms readCompletion_p3_truthy [OF Inr]
    show ?thesis by (auto simp: callModel_p3_def modelCache_logEvent)
  qed
qed

text \<open>
  Claim C10, at a response that is ok and whose payload has a \<open>message\<close> without
  \<open>content\<close>: \<open>generateWithNvidia\<close> stores \<open>undefined\<close> in the cache and returns it,
  where \<open>callModel\<close> of \<open>part_003\<close> throws and leaves the cache as it was.
\<close>

theorem generateWithNvidia_missing_content:
  "generateWithNvidia hollowHost (js ''m'') (js ''p'') emptyWorld =
     (Inr JUndefined,
      \<lparr>modelCache = [js ''m-p'' \<mapsto> JUndefined],
       events = [CacheLookup (js ''m-p''), ModelFetch (js ''m'') (js ''p''),
                 CacheStore (js ''m-p'') JUndefined]\<rparr>)
   \<and> callModel_p3 hollowHost (js ''m'') (js ''p'') emptyWorld =
     (Inl InvalidFormat,
      \<lparr>modelCache = Map.empty,
       events = [CacheLookup (js ''m-p''), ModelFetch (js ''m'') (js ''p'')]\<rparr>)"
  by (simp add: run_eval hollowHost_def)


theorem callModel_second_call_cached_witness:
  "callModel_mlc steadyHost (js ''m'') (js ''p'') emptyWorld = (Inr (JStr (js ''hello'')), cachedWorld)
   \<and> callModel_mlc steadyHost (js ''m'') (js ''p'') cachedWorld
        = (Inr (JStr (js ''hello'')), logEvent (CacheLookup (js ''m-p'')) cachedWorld)
   \<and> callModel_p3 steadyHost (js ''m'') (js ''p'') emptyWorld = (Inr (JStr (js ''hello'')), cachedWorld)
   \<and> callModel_p3 steadyHost (js ''m'') (js ''p'') cachedWorld
        = (Inr (JStr (js ''hello'')), logEvent (CacheLookup (js ''m-p'')) cachedWorld)
   \<and> generateWithNvidia steadyHost (js ''m'') (js ''p'') emptyWorld
        = (Inr (JStr (js ''hello'')), cachedWorld)
   \<and> generateWithNvidia steadyHost (js ''m'') (js ''p'') cachedWorld
        = (Inr (JStr (js ''hello'')), logEvent (CacheLookup (js ''m-p'')) cachedWorld)
   \<and> modelCache cachedWorld (js ''m-p'') = Some (JStr (js ''hello''))
   \<and> fetchCount (logEvent (CacheLookup (js ''m-p'')) cachedWorld) = 1"
proof -
  have k1: "cacheKey_plain (js ''m'') (js ''p'') = js ''m-p''"
    by (simp add: cacheKey_plain_def js_def)
  have k2: "cacheKey_b64 steadyHost (js ''m'') (js ''p'') = js ''m-p''"
    by (simp add: cacheKey_b64_def steadyHost_def testHost_def js_def)
  have f1: "callModel_mlc steadyHost (js ''m'') (js ''p'') emptyWorld
              = (Inr (JStr (js ''hello'')), cachedWorld)"
    by (simp add: run_eval steadyHost_def cachedWorld_def)
  have f2: "callModel_p3 steadyHost (js ''m'') (js ''p'') emptyWorld
              = (Inr (JStr (js ''hello'')), cachedWorld)"
    by (simp add: run_eval steadyHost_def cachedWorld_def)
  have f3: "generateWithNvidia steadyHost (js ''m'') (js ''p'') emptyWorld
              = (Inr (JStr (js ''hello'')), cachedWorld)"
    by (simp add: run_eval steadyHost_def cachedWorld_def)
  have hit: "modelCache cachedWorld (js ''m-p'') = Some (JStr (js ''hello''))"
    by (simp add: cachedWorld_def)
  have cnt: "fetchCount (logEvent (CacheLookup (js ''m-p'')) cachedWorld) = 1"
    by (simp add: cachedWorld_def fetchCount_def logEvent_def)
  note inst = callModel_second_call_cached
    [of steadyHost "js ''m''" "js ''p''" emptyWorld "JStr (js ''hello'')" cachedWorld
        "JStr (js ''hello'')", unfolded k1 k2]
  from inst f1 have s1: "callModel_mlc steadyHost (js ''m'') (js ''p'') cachedWorld
        = (Inr (JStr (js ''hello'')), logEvent (CacheLookup (js ''m-p'')) cachedWorld)"
    by blast
  from inst f2 have s2: "callModel_p3 steadyHost (js ''m'') (js ''p'') cachedWorld
        = (Inr (JStr (js ''hello'')), logEvent (CacheLookup (js ''m-p'')) cachedWorld)"
    by blast
  from inst f3 have s3: "generateWithNvidia steadyHost (js ''m'') (js ''p'') cachedWorld
        = (Inr (JStr (js ''hello'')), logEvent (CacheLookup (js ''m-p'')) cachedWorld)"
    by blast
  from f1 f2 f3 s1 s2 s3 hit cnt show ?thesis by blast
qed

section \<open>The fan-out keeps the order of the registry\<close>

lemma settleAll_length: "length (fst (settleAll call models w)) = length models"
proof (induction models arbitrary: w)
  case Nil
  show ?case by simp
next
  case (Cons m ms)
  obtain r w1 where c: "call m w = (r, w1)" by (cases "call m w")
  obtain rs w2 where s: "settleAll call ms w1 = (rs, w2)" by (cases "settleAll call ms w1")
  from Cons.IH [of w1] s have "length rs = length ms" by simp
  with c s show ?case by simp
qed

lemma subseq_map_filter_zip:
  assumes "\<And>m r c. f (m, r) = Some c \<Longrightarrow> g c = m"
  shows "subseq (map g (List.map_filter f (zip ms rs))) ms"
proof (induction ms arbitrary: rs)
  case Nil
  show ?case by simp
next
  case (Cons m ms)
  show ?case
  proof (cases rs)
    case Nil
    then show ?thesis by simp
  next
    case (Cons r rs')
    show ?thesis
    proof (cases "f (m, r)")
      case None
      with Cons Cons.IH [of rs'] show ?thesis by (simp add: list_emb_Cons)
    next
      case (Some c)
      with assms have "g c = m" by simp
      with Some Cons Cons.IH [of rs'] show ?thesis by simp
    qed
  qed
qed

lemma candidatesOf_mlc_subseq: "subseq (map cand_model (candidatesOf_mlc models results)) models"
  unfolding candidatesOf_mlc_def
  by (rule subseq_map_filter_zip) (auto split: sum.splits if_splits)

lemma candidatesOf_p3_subseq: "subseq (map cand_model (candidatesOf_p3 h models results)) models"
  unfolding candidatesOf_p3_def
  by (rule subseq_map_filter_zip) (auto split: sum.splits if_splits)

lemma subseq_facts:
  assumes "subseq (map cand_model cs) models"
  shows "length cs \<le> length models \<and> set (map cand_model cs) \<subseteq> set models"
proof -
  from assms have "length (map cand_model cs) \<le> length models" by (rule list_emb_length)
  moreover have "set (map cand_model cs) \<subseteq> set models"
  proof
    fix x assume "x \<in> set (map cand_model cs)"
    with assms obtain y where "y \<in> set models" and "x = y" by (rule list_emb_set)
    then show "x \<in> set models" by simp
  qed
  ultimately show ?thesis by simp
qed

lemmas fan_eval = fanOut_mlc_def getModelResponses_def candidatesOf_mlc_def candidatesOf_p3_def
  callModelWithRetry_mlc_def callModelWithRetry_p3_def retryLoop.simps MODEL_LIST_def
  JUDGE_CONFIG_maxRetries_def JUDGE_CONFIG_retryDelay_def atLeast20_def

section \<open>The coordinators on failing models and on blank prompts\<close>

lemma judgeAndGenerate_mlc_no_candidates:
  assumes "p \<noteq> []" and "fst (fanOut_mlc h p w) = []"
  shows "status (fst (judgeAndGenerate_mlc h (Some p) w)) = 500
       \<and> map_of (body (fst (judgeAndGenerate_mlc h (Some p) w))) (js ''bestResponse'') = None"
proof -
  obtain cs w1 where f: "fanOut_mlc h p w = (cs, w1)" by (cases "fanOut_mlc h p w")
  with assms(2) have "cs = []" by simp
  with f assms(1) show ?thesis by (simp add: judgeAndGenerate_mlc_def js_def)
qed

lemma judgeAndGenerate_p3_no_candidates:
  assumes "trim p \<noteq> []" and "fst (getModelResponses h p w) = []"
  shows "status (fst (judgeAndGenerate_p3 h (Some p) w)) = 503
       \<and> map_of (body (fst (judgeAndGenerate_p3 h (Some p) w))) (js ''bestResponse'') = None"
proof -
  obtain cs w1 where f: "getModelResponses h p w = (cs, w1)" by (cases "getModelResponses h p w")
  with assms(2) have "cs = []" by simp
  with f assms(1) show ?thesis by (simp add: judgeAndGenerate_p3_def js_def)
qed

lemma blank_prompt_rejected:
  assumes "prompt = None \<or> (\<exists>p. prompt = Some p \<and> trim p = [])"
  shows "judgeAndGenerate_p3 h prompt w
           = (\<lparr>status = 400, body = [(js ''error'', JStr (js ''Non-empty prompt is required''))]\<rparr>, w)
       \<and> llmController h prompt w
           = (\<lparr>status = 400, body = [(js ''error'', JStr (js ''Prompt required''))]\<rparr>, w)"
  using assms by (auto simp: judgeAndGenerate_p3_def llmController_def)

lemma absent_or_empty_prompt_rejected_mlc:
  assumes "prompt = None \<or> prompt = Some []"
  shows "judgeAndGenerate_mlc h prompt w
           = (\<lparr>status = 400, body = [(js ''error'', JStr (js ''Prompt is required''))]\<rparr>, w)"
  using assms by (auto simp: judgeAndGenerate_mlc_def)

lemmas ctl_eval = judgeAndGenerate_mlc_def judgeAndGenerate_p3_def llmController_def
  judgeResponses_mlc_def judgeResponses_p3_def askJudge_def judgeReply_def
  canBuildJudgePrompt_def weightedRandomSelect_def jsIndex_def bestBody_def optTextOf_def

text \<open>
  Claim C3, on a request whose three models fail at every attempt: \<open>judgeAndGenerate\<close> of
  \<open>part_003\<close> answers 503 with an error and a mitigation and no \<open>bestResponse\<close>;
  \<open>judgeAndGenerate\<close> of \<open>mlcontroler.js\<close> answers 500, the status of its generic error.
\<close>

theorem judgeAndGenerate_all_models_fail:
  "fst (judgeAndGenerate_mlc downHost (Some (js ''hi'')) emptyWorld)
     = \<lparr>status = 500, body = [(js ''error'', JStr (js ''All model calls failed''))]\<rparr>
   \<and> fst (judgeAndGenerate_p3 downHost (Some (js ''hi'')) emptyWorld)
     = \<lparr>status = 503,
        body = [(js ''error'', JStr (js ''All model providers failed'')),
                (js ''mitigation'', JStr (js ''Try again with a different prompt''))]\<rparr>"
  by (simp add: ctl_eval fan_eval run_eval downHost_def parse_eval)

text \<open>
  Claim C9, on a prompt of three spaces: \<open>judgeAndGenerate\<close> of \<open>part_003\<close> and
  \<open>llmController\<close> answer 400 and touch nothing; \<open>judgeAndGenerate\<close> of
  \<open>mlcontroler.js\<close>, which tests \<open>!prompt\<close> without trimming, calls the three models and
  answers 200.
\<close>

theorem judgeAndGenerate_mlc_blank_prompt:
  "trim (js ''   '') = []
   \<and> status (fst (judgeAndGenerate_mlc steadyHost (Some (js ''   '')) emptyWorld)) = 200
   \<and> fetchCount (snd (judgeAndGenerate_mlc steadyHost (Some (js ''   '')) emptyWorld)) = 3
   \<and> judgeAndGenerate_p3 steadyHost (Some (js ''   '')) emptyWorld
       = (\<lparr>status = 400, body = [(js ''error'', JStr (js ''Non-empty prompt is required''))]\<rparr>,
          emptyWorld)
   \<and> llmController steadyHost (Some (js ''   '')) emptyWorld
       = (\<lparr>status = 400, body = [(js ''error'', JStr (js ''Prompt required''))]\<rparr>, emptyWorld)"
  by (simp add: ctl_eval fan_eval run_eval steadyHost_def parse_eval floor_eq_iff)

section \<open>The judge is advisory\<close>

lemma jsIndex_random:
  assumes "candidates \<noteq> []" "0 \<le> rnd" "rnd < 1"
  shows "\<exists>c \<in> set candidates. jsIndex candidates (randomIndex rnd (length candidates)) = Some c"
proof -
  from assms(1) have n: "1 \<le> length candidates" by (cases candidates) simp_all
  from randomIndex_range [OF assms(2,3) n] jsIndex_in_range show ?thesis by blast
qed

lemma jsIndex_parsed_mlc:
  assumes "candidates \<noteq> []" "0 \<le> rnd" "rnd < 1"
  shows "\<exists>c \<in> set candidates.
           jsIndex candidates (parseBestIndex_mlc rnd reply (length candidates)) = Some c"
proof -
  from assms(1) have n: "1 \<le> length candidates" by (cases candidates) simp_all
  from parseBestIndex_mlc_range [OF assms(2,3) n] jsIndex_in_range show ?thesis by blast
qed

lemma jsIndex_parsed_p3:
  assumes "candidates \<noteq> []" "0 \<le> rnd" "rnd < 1"
  shows "\<exists>c \<in> set candidates.
           jsIndex candidates (parseBestIndex_p3 rnd reply (length candidates)) = Some c"
proof -
  from assms(1) have n: "1 \<le> length candidates" by (cases candidates) simp_all
  from parseBestIndex_p3_range [OF assms(2,3) n] jsIndex_in_range show ?thesis by blast
qed

lemma jsIndex_first: "candidates \<noteq> [] \<Longrightarrow> jsIndex candidates 0 = Some (hd candidates)"
  by (cases candidates) (simp_all add: jsIndex_def)

lemma judgeResponses_mlc_cases:
  "fst (judgeResponses_mlc h prompt candidates w) =
     (case fst (askJudge (\<lambda>s. s) h candidates w) of
        Inr responseText \<Rightarrow>
          jsIndex candidates (parseBestIndex_mlc (mathRandom h) responseText (length candidates))
      | Inl error \<Rightarrow> jsIndex candidates (randomIndex (mathRandom h) (length candidates)))"
  by (simp add: judgeResponses_mlc_def split: prod.splits sum.splits)

lemma judgeResponses_p3_cases:
  "fst (judgeResponses_p3 h prompt candidates w) =
     (case fst (askJudge (take 100) h candidates (logEvent (RemoveTokens JudgeLimiter 1) w)) of
        Inr responseText \<Rightarrow>
          jsIndex candidates (parseBestIndex_p3 (mathRandom h) responseText (length candidates))
      | Inl error \<Rightarrow> jsIndex candidates 0)"
  by (simp add: judgeResponses_p3_def weightedRandomSelect_def split: prod.splits sum.splits)

lemma judgeResponses_mlc_member:
  assumes "candidates \<noteq> []" "0 \<le> mathRandom h" "mathRandom h < 1"
  shows "\<exists>c \<in> set candidates. fst (judgeResponses_mlc h prompt candidates w) = Some c"
  unfolding judgeResponses_mlc_cases
  using jsIndex_random [OF assms] jsIndex_parsed_mlc [OF assms]
  by (simp split: sum.splits)

lemma judgeResponses_p3_member:
  assumes "candidates \<noteq> []" "0 \<le> mathRandom h" "mathRandom h < 1"
  shows "\<exists>c \<in> set candidates. fst (judgeResponses_p3 h prompt candidates w) = Some c"
  unfolding judgeResponses_p3_cases
  using jsIndex_first [OF assms(1)] jsIndex_parsed_p3 [OF assms] assms(1)
  by (simp split: sum.splits)

lemma judgeAndGenerate_mlc_ok:
  assumes "p \<noteq> []" "fst (fanOut_mlc h p w) \<noteq> []" "0 \<le> mathRandom h" "mathRandom h < 1"
  shows "\<exists>c \<in> set (fst (fanOut_mlc h p w)).
           status (fst (judgeAndGenerate_mlc h (Some p) w)) = 200
         \<and> map_of (body (fst (judgeAndGenerate_mlc h (Some p) w))) (js ''bestResponse'')
              = Some (cand_content c)"
proof -
  obtain cs w1 where f: "fanOut_mlc h p w = (cs, w1)" by (cases "fanOut_mlc h p w")
  with assms(2) have ne: "cs \<noteq> []" by simp
  obtain b w2 where j: "judgeResponses_mlc h p cs w1 = (b, w2)"
    by (cases "judgeResponses_mlc h p cs w1")
  from judgeResponses_mlc_member [OF ne assms(3,4), of p w1] j
  obtain c where c: "c \<in> set cs" "b = Some c" by auto
  from f ne j c assms(1) show ?thesis
    by (auto simp: judgeAndGenerate_mlc_def bestBody_def)
qed

lemma judgeAndGenerate_p3_ok:
  assumes "trim p \<noteq> []" "fst (getModelResponses h p w) \<noteq> []" "0 \<le> mathRandom h" "mathRandom h < 1"
  shows "\<exists>c \<in> set (fst (getModelResponses h p w)).
           status (fst (judgeAndGenerate_p3 h (Some p) w)) = 200
         \<and> map_of (body (fst (judgeAndGenerate_p3 h (Some p) w))) (js ''bestResponse'')
              = Some (cand_content c)"
proof -
  obtain cs w1 where f: "getModelResponses h p w = (cs, w1)" by (cases "getModelResponses h p w")
  with assms(2) have ne: "cs \<noteq> []" by simp
  obtain b w2 where j: "judgeResponses_p3 h p cs w1 = (b, w2)"
    by (cases "judgeResponses_p3 h p cs w1")
  from judgeResponses_p3_member [OF ne assms(3,4), of p w1] j
  obtain c where c: "c \<in> set cs" "b = Some c" by auto
  from f ne j c assms(1) show ?thesis
    by (auto simp: judgeAndGenerate_p3_def bestBody_def)
qed


text \<open>
  Claim C7, as the code has it. For a non-empty candidate list, \<open>judgeResponses\<close> always
  returns a candidate of the list, in both controllers. When the call to the judge fails
  (a rejected or aborted request, a response that is not ok, a body that is not JSON, a
  prompt that cannot be built), \<open>mlcontroler.js\<close> returns the candidate at a random index
  and \<open>part_003\<close> the first candidate. When the judge answers a text without a parseable
  index, both return the candidate at a random index, drawn by \<open>parseBestIndex\<close>. A
  request that has a candidate is then answered with status 200.
\<close>

theorem judge_failure_falls_back:
  assumes "candidates \<noteq> []" and "0 \<le> mathRandom h" and "mathRandom h < 1"
  shows
   "(\<exists>c \<in> set candidates. fst (judgeResponses_mlc h prompt candidates w) = Some c)
    \<and> (\<exists>c \<in> set candidates. fst (judgeResponses_p3 h prompt candidates w) = Some c)
    \<and> (\<forall>e. fst (askJudge (\<lambda>s. s) h candidates w) = Inl e \<longrightarrow>
          fst (judgeResponses_mlc h prompt candidates w)
            = jsIndex candidates (randomIndex (mathRandom h) (length candidates)))
    \<and> (\<forall>e. fst (askJudge (take 100) h candidates (logEvent (RemoveTokens JudgeLimiter 1) w)) = Inl e
          \<longrightarrow> fst (judgeResponses_p3 h prompt candidates w) = Some (hd candidates))
    \<and> (\<forall>s. fst (askJudge (\<lambda>s. s) h candidates w) = Inr (JStr s) \<and> firstDigitRun s = [] \<longrightarrow>
          fst (judgeResponses_mlc h prompt candidates w)
            = jsIndex candidates (randomIndex (mathRandom h) (length candidates)))
    \<and> (\<forall>s. fst (askJudge (take 100) h candidates (logEvent (RemoveTokens JudgeLimiter 1) w))
               = Inr (JStr s)
             \<and> \<not> (trim (stripOption (stripQuotes s)) \<noteq> []
                    \<and> list_all isDigit (trim (stripOption (stripQuotes s)))) \<longrightarrow>
          fst (judgeResponses_p3 h prompt candidates w)
            = jsIndex candidates (randomIndex (mathRandom h) (length candidates)))
    \<and> (p \<noteq> [] \<and> fst (fanOut_mlc h p w) \<noteq> [] \<longrightarrow>
          status (fst (judgeAndGenerate_mlc h (Some p) w)) = 200)
    \<and> (trim p \<noteq> [] \<and> fst (getModelResponses h p w) \<noteq> [] \<longrightarrow>
          status (fst (judgeAndGenerate_p3 h (Some p) w)) = 200)"
proof (intro conjI allI impI)
  show "\<exists>c \<in> set candidates. fst (judgeResponses_mlc h prompt candidates w) = Some c"
    using assms by (rule judgeResponses_mlc_member)
next
  show "\<exists>c \<in> set candidates. fst (judgeResponses_p3 h prompt candidates w) = Some c"
    using assms by (rule judgeResponses_p3_member)
next
  fix e assume "fst (askJudge (\<lambda>s. s) h candidates w) = Inl e"
  then show "fst (judgeResponses_mlc h prompt candidates w)
            = jsIndex candidates (randomIndex (mathRandom h) (length candidates))"
    by (simp add: judgeResponses_mlc_cases)
next
  fix e assume "fst (askJudge (take 100) h candidates (logEvent (RemoveTokens JudgeLimiter 1) w)) = Inl e"
  then show "fst (judgeResponses_p3 h prompt candidates w) = Some (hd candidates)"
    using assms(1) by (simp add: judgeResponses_p3_cases jsIndex_first)
next
  fix s assume "fst (askJudge (\<lambda>s. s) h candidates w) = Inr (JStr s) \<and> firstDigitRun s = []"
  then show "fst (judgeResponses_mlc h prompt candidates w)
            = jsIndex candidates (randomIndex (mathRandom h) (length candidates))"
    by (simp add: judgeResponses_mlc_cases parseBestIndex_mlc_def)
next
  fix s assume "fst (askJudge (take 100) h candidates (logEvent (RemoveTokens JudgeLimiter 1) w))
               = Inr (JStr s)
             \<and> \<not> (trim (stripOption (stripQuotes s)) \<noteq> []
                    \<and> list_all isDigit (trim (stripOption (stripQuotes s))))"
  then show "fst (judgeResponses_p3 h prompt candidates w)
            = jsIndex candidates (randomIndex (mathRandom h) (length candidates))"
    by (auto simp: judgeResponses_p3_cases parseBestIndex_p3_def Let_def)
next
  assume "p \<noteq> [] \<and> fst (fanOut_mlc h p w) \<noteq> []"
  with judgeAndGenerate_mlc_ok [of p h w] assms(2,3)
  show "status (fst (judgeAndGenerate_mlc h (Some p) w)) = 200" by blast
next
  assume "trim p \<noteq> [] \<and> fst (getModelResponses h p w) \<noteq> []"
  with judgeAndGenerate_p3_ok [of p h w] assms(2,3)
  show "status (fst (judgeAndGenerate_p3 h (Some p) w)) = 200" by blast
qed

lemma down_mlc: "fst (judgeResponses_mlc judgeDownHost (js ''q'') twoCandidates emptyWorld)
                   = Some (twoCandidates ! 1)"
  by (simp add: ctl_eval judgeDownHost_def twoCandidates_def testHost_def randomIndex_def
        floor_eq_iff logEvent_def emptyWorld_def)

lemma down_p3: "fst (judgeResponses_p3 judgeDownHost (js ''q'') twoCandidates emptyWorld)
                   = Some (twoCandidates ! 0)"
  by (simp add: ctl_eval judgeDownHost_def twoCandidates_def testHost_def randomIndex_def
        floor_eq_iff logEvent_def emptyWorld_def)

lemma muddled_mlc: "fst (judgeResponses_mlc muddledHost (js ''q'') twoCandidates emptyWorld)
                   = Some (twoCandidates ! 1)"
  by (simp add: ctl_eval muddledHost_def twoCandidates_def testHost_def judgeSays_def
        responseOk_def parse_eval floor_eq_iff logEvent_def emptyWorld_def)

text \<open>
  In \<open>part_003\<close> a reply without a parseable index does not lead to the first candidate:
  with the draw 1/2 and two candidates it leads to the second.
\<close>

theorem judgeResponses_p3_unparseable_counterexample:
  "fst (judgeResponses_p3 muddledHost (js ''q'') twoCandidates emptyWorld)
     \<noteq> Some (hd twoCandidates)"
  by (simp add: ctl_eval muddledHost_def twoCandidates_def testHost_def judgeSays_def
        responseOk_def parse_eval floor_eq_iff logEvent_def emptyWorld_def)


theorem judge_failure_falls_back_witness:
  "twoCandidates \<noteq> [] \<and> 0 \<le> mathRandom judgeDownHost \<and> mathRandom judgeDownHost < 1
   \<and> fst (askJudge (\<lambda>s. s) judgeDownHost twoCandidates emptyWorld) = Inl (FetchFailed (js ''down''))
   \<and> fst (judgeResponses_mlc judgeDownHost (js ''q'') twoCandidates emptyWorld)
        = Some (twoCandidates ! 1)
   \<and> fst (judgeResponses_p3 judgeDownHost (js ''q'') twoCandidates emptyWorld)
        = Some (hd twoCandidates)
   \<and> fst (askJudge (\<lambda>s. s) muddledHost twoCandidates emptyWorld) = Inr (JStr (js ''none''))
   \<and> firstDigitRun (js ''none'') = []
   \<and> fst (judgeResponses_mlc muddledHost (js ''q'') twoCandidates emptyWorld)
        = Some (twoCandidates ! 1)
   \<and> fst (judgeResponses_p3 muddledHost (js ''q'') twoCandidates emptyWorld)
        = Some (twoCandidates ! 1)
   \<and> fst (fanOut_mlc judgeDownHost (js ''q'') emptyWorld) \<noteq> []
   \<and> status (fst (judgeAndGenerate_mlc judgeDownHost (Some (js ''q'')) emptyWorld)) = 200
   \<and> fst (getModelResponses judgeDownHost (js ''q'') emptyWorld) \<noteq> []
   \<and> status (fst (judgeAndGenerate_p3 judgeDownHost (Some (js ''q'')) emptyWorld)) = 200"
proof -
  let ?w = "logEvent (RemoveTokens JudgeLimiter 1) emptyWorld"
  have ne: "twoCandidates \<noteq> []" by (simp add: twoCandidates_def)
  have r1: "0 \<le> mathRandom judgeDownHost" "mathRandom judgeDownHost < 1"
    by (simp_all add: judgeDownHost_def testHost_def)
  have r2: "0 \<le> mathRandom muddledHost" "mathRandom muddledHost < 1"
    by (simp_all add: muddledHost_def testHost_def)
  have pick: "jsIndex twoCandidates (randomIndex (1 / 2) (length twoCandidates))
                = Some (twoCandidates ! 1)"
    by (simp add: jsIndex_def randomIndex_def twoCandidates_def floor_eq_iff)
  have rnd: "mathRandom judgeDownHost = 1 / 2" "mathRandom muddledHost = 1 / 2"
    by (simp_all add: judgeDownHost_def muddledHost_def testHost_def)
  have d1: "fst (askJudge (\<lambda>s. s) judgeDownHost twoCandidates emptyWorld)
              = Inl (FetchFailed (js ''down''))"
    by (simp add: askJudge_def judgeReply_def canBuildJudgePrompt_def twoCandidates_def
          judgeDownHost_def testHost_def)
  have d2: "fst (askJudge (take 100) judgeDownHost twoCandidates ?w)
              = Inl (FetchFailed (js ''down''))"
    by (simp add: askJudge_def judgeReply_def canBuildJudgePrompt_def twoCandidates_def
          judgeDownHost_def testHost_def)
  have m1: "fst (askJudge (\<lambda>s. s) muddledHost twoCandidates emptyWorld) = Inr (JStr (js ''none''))"
    by (simp add: askJudge_def judgeReply_def canBuildJudgePrompt_def twoCandidates_def
          muddledHost_def testHost_def judgeSays_def responseOk_def optTextOf_def js_def)
  have m2: "fst (askJudge (take 100) muddledHost twoCandidates ?w) = Inr (JStr (js ''none''))"
    by (simp add: askJudge_def judgeReply_def canBuildJudgePrompt_def twoCandidates_def
          muddledHost_def testHost_def judgeSays_def responseOk_def optTextOf_def js_def)
  have nd: "firstDigitRun (js ''none'') = []"
    by (simp add: firstDigitRun_def isDigit_def js_def)
  have nn: "\<not> (trim (stripOption (stripQuotes (js ''none''))) \<noteq> []
               \<and> list_all isDigit (trim (stripOption (stripQuotes (js ''none'')))))"
    by (simp add: parse_eval)
  have f1: "fst (fanOut_mlc judgeDownHost (js ''q'') emptyWorld) \<noteq> []"
    by (simp add: fan_eval run_eval judgeDownHost_def)
  have f2: "fst (getModelResponses judgeDownHost (js ''q'') emptyWorld) \<noteq> []"
    by (simp add: fan_eval run_eval judgeDownHost_def)
  have q: "js ''q'' \<noteq> []" "trim (js ''q'') \<noteq> []"
    by (simp_all add: js_def trim_def isSpace_def)
  note down = judge_failure_falls_back
    [OF ne r1, of "js ''q''" emptyWorld "js ''q''", unfolded rnd pick]
  note mud = judge_failure_falls_back
    [OF ne r2, of "js ''q''" emptyWorld "js ''q''", unfolded rnd pick]
  from down d1 have a: "fst (judgeResponses_mlc judgeDownHost (js ''q'') twoCandidates emptyWorld)
        = Some (twoCandidates ! 1)" by blast
  from down d2 have b: "fst (judgeResponses_p3 judgeDownHost (js ''q'') twoCandidates emptyWorld)
        = Some (hd twoCandidates)" by blast
  from mud m1 nd have c: "fst (judgeResponses_mlc muddledHost (js ''q'') twoCandidates emptyWorld)
        = Some (twoCandidates ! 1)" by blast
  from mud m2 nn have d: "fst (judgeResponses_p3 muddledHost (js ''q'') twoCandidates emptyWorld)
        = Some (twoCandidates ! 1)" by blast
  from down q f1 have e: "status (fst (judgeAndGenerate_mlc judgeDownHost (Some (js ''q'')) emptyWorld)) = 200"
    by blast
  from down q f2 have f: "status (fst (judgeAndGenerate_p3 judgeDownHost (Some (js ''q'')) emptyWorld)) = 200"
    by blast
  from ne r1 d1 a b m1 nd c d f1 e f2 f show ?thesis by blast
qed

section \<open>The calls of a fan-out do not depend on one another\<close>

lemma sameView_logEvent:
  "sameView k m p w v \<Longrightarrow> sameView k m p (logEvent e w) (logEvent e v)"
  by (simp add: sameView_def modelCache_logEvent requestsOf_logEvent)

lemma lookupOrFetch_view:
  assumes "sameView cacheKey model prompt w v"
  shows "fst (lookupOrFetch cacheKey read h model prompt w)
           = fst (lookupOrFetch cacheKey read h model prompt v)
       \<and> sameView cacheKey model prompt (snd (lookupOrFetch cacheKey read h model prompt w))
            (snd (lookupOrFetch cacheKey read h model prompt v))"
  using assms
  by (simp add: sameView_def lookupOrFetch_def Let_def requestsOf_def logEvent_def
        split: option.splits sum.splits)

lemma lookupOrFetch_frame:
  assumes "k' \<noteq> cacheKey" and "m' \<noteq> model"
  shows "sameView k' m' p' (snd (lookupOrFetch cacheKey read h model prompt w)) w"
  using assms
  by (simp add: sameView_def lookupOrFetch_def Let_def requestsOf_def logEvent_def
        split: option.splits sum.splits)

lemma retryLoop_step:
  assumes "call w = (r, w')" and "attempt \<le> retries"
  shows "retryLoop call d retries attempt w =
     (case r of
        Inr result \<Rightarrow> (Inr result, w')
      | Inl error \<Rightarrow>
          if attempt = retries then (Inl error, w')
          else retryLoop call d retries (attempt + 1) (logEvent (Sleep (d * (attempt + 1))) w'))"
  using assms by (subst retryLoop.simps) simp

lemma retryLoop_done:
  "\<not> attempt \<le> retries \<Longrightarrow> retryLoop call d retries attempt w = (Inr JUndefined, w)"
  by (subst retryLoop.simps) simp

lemma retryLoop_view:
  assumes "sameView cacheKey model prompt w v"
  shows "fst (retryLoop (lookupOrFetch cacheKey read h model prompt) d retries attempt w)
           = fst (retryLoop (lookupOrFetch cacheKey read h model prompt) d retries attempt v)"
  using assms
proof (induction "Suc retries - attempt" arbitrary: attempt w v)
  case 0
  then have "\<not> attempt \<le> retries" by simp
  then show ?case by (simp add: retryLoop_done)
next
  case (Suc n)
  then have le: "attempt \<le> retries" by simp
  let ?call = "lookupOrFetch cacheKey read h model prompt"
  obtain r w' where cw: "?call w = (r, w')" by (cases "?call w")
  obtain r' v' where cv': "?call v = (r', v')" by (cases "?call v")
  from lookupOrFetch_view [OF Suc.prems, of read h] cw cv'
  have same: "r' = r" and view: "sameView cacheKey model prompt w' v'" by simp_all
  from cv' same have cv: "?call v = (r, v')" by simp
  show ?case
  proof (cases r)
    case (Inr x)
    then show ?thesis
      by (simp add: retryLoop_step [where call = ?call, OF cw le] retryLoop_step [where call = ?call, OF cv le])
  next
    case (Inl e)
    show ?thesis
    proof (cases "attempt = retries")
      case True
      show ?thesis
        unfolding retryLoop_step [where call = ?call, OF cw le]
          retryLoop_step [where call = ?call, OF cv le]
        using Inl True by simp
    next
      case False
      with le Suc.hyps(2) have n: "n = Suc retries - (attempt + 1)" by simp
      from Suc.hyps(1) [OF n sameView_logEvent [OF view]]
      have "fst (retryLoop ?call d retries (attempt + 1) (logEvent (Sleep (d * (attempt + 1))) w'))
          = fst (retryLoop ?call d retries (attempt + 1) (logEvent (Sleep (d * (attempt + 1))) v'))" .
      with Inl False show ?thesis
        by (simp add: retryLoop_step [where call = ?call, OF cw le] retryLoop_step [where call = ?call, OF cv le])
    qed
  qed
qed

lemma sameView_trans: "sameView k m p a b \<Longrightarrow> sameView k m p b c \<Longrightarrow> sameView k m p a c"
  by (simp add: sameView_def)

lemma sameView_Sleep: "sameView k m p (logEvent (Sleep ms) w) w"
  by (simp add: sameView_def modelCache_logEvent requestsOf_logEvent)

lemma retryLoop_frame:
  assumes "k' \<noteq> cacheKey" and "m' \<noteq> model"
  shows "sameView k' m' p'
           (snd (retryLoop (lookupOrFetch cacheKey read h model prompt) d retries attempt w)) w"
proof (induction "Suc retries - attempt" arbitrary: attempt w)
  case 0
  then have "\<not> attempt \<le> retries" by simp
  then show ?case by (simp add: retryLoop_done sameView_def)
next
  case (Suc n)
  then have le: "attempt \<le> retries" by simp
  let ?call = "lookupOrFetch cacheKey read h model prompt"
  obtain r w' where cw: "?call w = (r, w')" by (cases "?call w")
  from lookupOrFetch_frame [OF assms, of p' read h prompt w] cw
  have one: "sameView k' m' p' w' w" by simp
  show ?case
  proof (cases r)
    case (Inr x)
    with one show ?thesis by (simp add: retryLoop_step [where call = ?call, OF cw le])
  next
    case (Inl e)
    show ?thesis
    proof (cases "attempt = retries")
      case True
      show ?thesis
        unfolding retryLoop_step [where call = ?call, OF cw le]
        using Inl True one by simp
    next
      case False
      with le Suc.hyps(2) have n: "n = Suc retries - (attempt + 1)" by simp
      let ?w3 = "logEvent (Sleep (d * (attempt + 1))) w'"
      from Suc.hyps(1) [OF n, of ?w3]
      have "sameView k' m' p' (snd (retryLoop ?call d retries (attempt + 1) ?w3)) ?w3" .
      then have "sameView k' m' p' (snd (retryLoop ?call d retries (attempt + 1) ?w3)) w"
        using sameView_Sleep one by (blast intro: sameView_trans)
      with Inl False show ?thesis by (simp add: retryLoop_step [where call = ?call, OF cw le])
    qed
  qed
qed

lemma settleAll_independent:
  assumes "distinct models"
    and frame: "\<And>m m' w. m \<noteq> m' \<Longrightarrow> view m (snd (call m' w)) w"
    and dep: "\<And>m w v. view m w v \<Longrightarrow> fst (call m w) = fst (call m v)"
    and trans: "\<And>m a b c. view m a b \<Longrightarrow> view m b c \<Longrightarrow> view m a c"
  shows "fst (settleAll call models w) = map (\<lambda>m. fst (call m w)) models"
  using assms(1)
proof (induction models arbitrary: w)
  case Nil
  show ?case by simp
next
  case (Cons m ms)
  obtain r w1 where c: "call m w = (r, w1)" by (cases "call m w")
  obtain rs w2 where s: "settleAll call ms w1 = (rs, w2)" by (cases "settleAll call ms w1")
  from Cons.prems have d: "distinct ms" and nm: "m \<notin> set ms" by simp_all
  from Cons.IH [OF d, of w1] s have rs: "rs = map (\<lambda>m'. fst (call m' w1)) ms" by simp
  have "map (\<lambda>m'. fst (call m' w1)) ms = map (\<lambda>m'. fst (call m' w)) ms"
  proof (rule map_cong [OF refl])
    fix m' assume "m' \<in> set ms"
    with nm have "m' \<noteq> m" by auto
    from frame [OF this, of w] c have "view m' w1 w" by simp
    then show "fst (call m' w1) = fst (call m' w)" by (rule dep)
  qed
  with rs c s show ?case by simp
qed

lemma cacheKey_plain_inj: "cacheKey_plain m p = cacheKey_plain m' p \<Longrightarrow> m = m'"
  by (simp add: cacheKey_plain_def)

lemma cacheKey_b64_inj: "cacheKey_b64 h m p = cacheKey_b64 h m' p \<Longrightarrow> m = m'"
  by (simp add: cacheKey_b64_def)

lemma MODEL_LIST_distinct: "distinct MODEL_LIST"
  by (simp add: MODEL_LIST_def js_def)

lemma settleAll_mlc:
  assumes "distinct models"
  shows "fst (settleAll (\<lambda>model. callModelWithRetry_mlc h model prompt retries) models w)
       = map (\<lambda>model. fst (callModelWithRetry_mlc h model prompt retries w)) models"
proof (rule settleAll_independent [OF assms,
        where view = "\<lambda>m. sameView (cacheKey_plain m prompt) m prompt"])
  fix m m' :: jsstring and w assume "m \<noteq> m'"
  then have "cacheKey_plain m prompt \<noteq> cacheKey_plain m' prompt"
    using cacheKey_plain_inj by blast
  with \<open>m \<noteq> m'\<close> show "sameView (cacheKey_plain m prompt) m prompt
           (snd (callModelWithRetry_mlc h m' prompt retries w)) w"
    unfolding callModelWithRetry_mlc_def callModel_mlc_def by (intro retryLoop_frame) auto
next
  fix m w v assume "sameView (cacheKey_plain m prompt) m prompt w v"
  then show "fst (callModelWithRetry_mlc h m prompt retries w)
           = fst (callModelWithRetry_mlc h m prompt retries v)"
    unfolding callModelWithRetry_mlc_def callModel_mlc_def by (rule retryLoop_view)
next
  fix m a b c
  assume "sameView (cacheKey_plain m prompt) m prompt a b"
     "sameView (cacheKey_plain m prompt) m prompt b c"
  then show "sameView (cacheKey_plain m prompt) m prompt a c" by (rule sameView_trans)
qed

lemma settleAll_p3:
  assumes "distinct models"
  shows "fst (settleAll (\<lambda>model. callModelWithRetry_p3 h model prompt retries) models w)
       = map (\<lambda>model. fst (callModelWithRetry_p3 h model prompt retries w)) models"
proof (rule settleAll_independent [OF assms,
        where view = "\<lambda>m. sameView (cacheKey_b64 h m prompt) m prompt"])
  fix m m' :: jsstring and w assume "m \<noteq> m'"
  then have "cacheKey_b64 h m prompt \<noteq> cacheKey_b64 h m' prompt"
    using cacheKey_b64_inj by blast
  with \<open>m \<noteq> m'\<close> show "sameView (cacheKey_b64 h m prompt) m prompt
           (snd (callModelWithRetry_p3 h m' prompt retries w)) w"
    unfolding callModelWithRetry_p3_def callModel_p3_def by (intro retryLoop_frame) auto
next
  fix m w v assume "sameView (cacheKey_b64 h m prompt) m prompt w v"
  then show "fst (callModelWithRetry_p3 h m prompt retries w)
           = fst (callModelWithRetry_p3 h m prompt retries v)"
    unfolding callModelWithRetry_p3_def callModel_p3_def by (rule retryLoop_view)
next
  fix m a b c
  assume "sameView (cacheKey_b64 h m prompt) m prompt a b"
     "sameView (cacheKey_b64 h m prompt) m prompt b c"
  then show "sameView (cacheKey_b64 h m prompt) m prompt a c" by (rule sameView_trans)
qed

section \<open>The candidates of a fan-out\<close>

lemma map_filter_zip_map:
  assumes "\<And>m r c. f (m, r) = Some c \<Longrightarrow> g c = m"
  shows "map g (List.map_filter f (zip ms (map F ms))) = filter (\<lambda>m. f (m, F m) \<noteq> None) ms"
proof (induction ms)
  case Nil
  show ?case by simp
next
  case (Cons m ms)
  show ?case
  proof (cases "f (m, F m)")
    case None
    with Cons show ?thesis by simp
  next
    case (Some c)
    with assms have "g c = m" by simp
    with Some Cons show ?thesis by simp
  qed
qed

lemma candidatesOf_mlc_filter:
  "map cand_model (candidatesOf_mlc models (map F models)) = filter (\<lambda>m. kept_mlc (F m)) models"
proof -
  let ?f = "\<lambda>(model, result).
          case result of
            Inr v \<Rightarrow> if truthy v
                     then Some \<lparr>cand_model = model, cand_content = v, cand_timestamp = None\<rparr>
                     else None
          | Inl reason \<Rightarrow> None"
  have "map cand_model (List.map_filter ?f (zip models (map F models)))
          = filter (\<lambda>m. ?f (m, F m) \<noteq> None) models"
    by (rule map_filter_zip_map) (auto split: sum.splits if_splits)
  moreover have "(\<lambda>m. ?f (m, F m) \<noteq> None) = (\<lambda>m. kept_mlc (F m))"
    by (auto simp: kept_mlc_def split: sum.splits)
  ultimately show ?thesis by (simp add: candidatesOf_mlc_def)
qed

lemma candidatesOf_p3_filter:
  "map cand_model (candidatesOf_p3 h models (map F models)) = filter (\<lambda>m. kept_p3 h (F m)) models"
proof -
  let ?f = "\<lambda>(model, result).
          case result of
            Inr v \<Rightarrow> if atLeast20 h (lengthOf v)
                     then Some \<lparr>cand_model = model, cand_content = v,
                                cand_timestamp = Some (dateNow h)\<rparr>
                     else None
          | Inl reason \<Rightarrow> None"
  have "map cand_model (List.map_filter ?f (zip models (map F models)))
          = filter (\<lambda>m. ?f (m, F m) \<noteq> None) models"
    by (rule map_filter_zip_map) (auto split: sum.splits if_splits)
  moreover have "(\<lambda>m. ?f (m, F m) \<noteq> None) = (\<lambda>m. kept_p3 h (F m))"
    by (auto simp: kept_p3_def split: sum.splits)
  ultimately show ?thesis by (simp add: candidatesOf_p3_def)
qed

lemma fanOut_mlc_filter:
  "map cand_model (fst (fanOut_mlc h prompt w))
     = filter (\<lambda>model. kept_mlc (fst (callModelWithRetry_mlc h model prompt 2 w))) MODEL_LIST"
proof -
  obtain rs w1 where s: "settleAll (\<lambda>model. callModelWithRetry_mlc h model prompt 2) MODEL_LIST w
                          = (rs, w1)"
    by (cases "settleAll (\<lambda>model. callModelWithRetry_mlc h model prompt 2) MODEL_LIST w")
  with settleAll_mlc [OF MODEL_LIST_distinct, of h prompt 2 w]
  have "rs = map (\<lambda>model. fst (callModelWithRetry_mlc h model prompt 2 w)) MODEL_LIST" by simp
  with s show ?thesis by (simp add: fanOut_mlc_def candidatesOf_mlc_filter)
qed

lemma getModelResponses_filter:
  "map cand_model (fst (getModelResponses h prompt w))
     = filter (\<lambda>model. kept_p3 h (fst (callModelWithRetry_p3 h model prompt
                                         JUDGE_CONFIG_maxRetries w))) MODEL_LIST"
proof -
  let ?call = "\<lambda>model. callModelWithRetry_p3 h model prompt JUDGE_CONFIG_maxRetries"
  obtain rs w1 where s: "settleAll ?call MODEL_LIST w = (rs, w1)"
    by (cases "settleAll ?call MODEL_LIST w")
  with settleAll_p3 [OF MODEL_LIST_distinct, of h prompt JUDGE_CONFIG_maxRetries w]
  have "rs = map (\<lambda>model. fst (?call model w)) MODEL_LIST" by simp
  with s show ?thesis by (simp add: getModelResponses_def candidatesOf_p3_filter)
qed

text \<open>
  Claim C2. The fan-out (lines 21 to 30 of \<open>judgeAndGenerate\<close> in \<open>mlcontroler.js\<close>,
  \<open>getModelResponses\<close> in \<open>part_003\<close>) settles one retrying call for each model of the
  registry. Each call settles to what it gives on its own: it reads and writes only the
  cache entry of its own model and makes only requests for its own model, so that its
  result is the same in whatever order the calls proceed, and the failure of one call
  changes nothing for another. The candidates returned are the models of the registry
  whose own call is fulfilled with a value that the filter keeps, in the order of the
  registry: at most as many as the registry has models, each under a model id of the
  registry.
\<close>

theorem fanOut_candidates_in_registry_order:
  "length (fst (settleAll call MODEL_LIST w)) = length MODEL_LIST
   \<and> fst (settleAll (\<lambda>model. callModelWithRetry_mlc h model prompt 2) MODEL_LIST w)
       = map (\<lambda>model. fst (callModelWithRetry_mlc h model prompt 2 w)) MODEL_LIST
   \<and> map cand_model (fst (fanOut_mlc h prompt w))
       = filter (\<lambda>model. kept_mlc (fst (callModelWithRetry_mlc h model prompt 2 w))) MODEL_LIST
   \<and> fst (settleAll (\<lambda>model. callModelWithRetry_p3 h model prompt JUDGE_CONFIG_maxRetries)
            MODEL_LIST w)
       = map (\<lambda>model. fst (callModelWithRetry_p3 h model prompt JUDGE_CONFIG_maxRetries w))
           MODEL_LIST
   \<and> map cand_model (fst (getModelResponses h prompt w))
       = filter (\<lambda>model. kept_p3 h (fst (callModelWithRetry_p3 h model prompt
                                           JUDGE_CONFIG_maxRetries w))) MODEL_LIST
   \<and> length (fst (fanOut_mlc h prompt w)) \<le> length MODEL_LIST
   \<and> set (map cand_model (fst (fanOut_mlc h prompt w))) \<subseteq> set MODEL_LIST
   \<and> subseq (map cand_model (fst (fanOut_mlc h prompt w))) MODEL_LIST
   \<and> length (fst (getModelResponses h prompt w)) \<le> length MODEL_LIST
   \<and> set (map cand_model (fst (getModelResponses h prompt w))) \<subseteq> set MODEL_LIST
   \<and> subseq (map cand_model (fst (getModelResponses h prompt w))) MODEL_LIST"
proof -
  have a: "subseq (map cand_model (fst (fanOut_mlc h prompt w))) MODEL_LIST"
    by (simp add: fanOut_mlc_def candidatesOf_mlc_subseq split: prod.splits)
  have b: "subseq (map cand_model (fst (getModelResponses h prompt w))) MODEL_LIST"
    by (simp add: getModelResponses_def candidatesOf_p3_subseq split: prod.splits)
  note c = settleAll_mlc [OF MODEL_LIST_distinct, of h prompt 2 w]
  note d = settleAll_p3 [OF MODEL_LIST_distinct, of h prompt JUDGE_CONFIG_maxRetries w]
  note e = fanOut_mlc_filter [of h prompt w]
  note f = getModelResponses_filter [of h prompt w]
  from subseq_facts [OF a] subseq_facts [OF b] a b settleAll_length [of call MODEL_LIST w] c d e f
  show ?thesis by blast
qed

lemma llamaDown_mlc: "map cand_model (fst (fanOut_mlc llamaDownHost (js ''hi'') emptyWorld))
        = [js ''google/gemma-7b'', js ''deepseek-ai/deepseek-r1-distill-llama-8b'']"
  by (simp add: fan_eval run_eval llamaDownHost_def)

lemma llamaDown_p3: "map cand_model (fst (getModelResponses llamaDownHost (js ''hi'') emptyWorld))
        = [js ''google/gemma-7b'', js ''deepseek-ai/deepseek-r1-distill-llama-8b'']"
  by (simp add: fan_eval run_eval llamaDownHost_def)

lemma staggered_mlc: "map cand_model (fst (fanOut_mlc staggeredHost (js ''hi'') emptyWorld))
        = MODEL_LIST"
  by (simp add: fan_eval run_eval staggeredHost_def)

lemma staggered_p3: "map cand_model (fst (getModelResponses staggeredHost (js ''hi'') emptyWorld))
        = MODEL_LIST"
  by (simp add: fan_eval run_eval staggeredHost_def)

lemma llamaDown_alone:
  "fst (callModelWithRetry_mlc llamaDownHost (js ''meta/llama3-70b-instruct'') (js ''hi'') 2 emptyWorld)
     = Inl (FetchFailed (js ''down''))"
  "fst (callModelWithRetry_mlc llamaDownHost (js ''google/gemma-7b'') (js ''hi'') 2 emptyWorld)
     = Inr (JStr (js ''a reply of more than twenty units''))"
  "fst (callModelWithRetry_mlc llamaDownHost (js ''deepseek-ai/deepseek-r1-distill-llama-8b'') (js ''hi'') 2 emptyWorld)
     = Inr (JStr (js ''a reply of more than twenty units''))"
  by (simp_all add: fan_eval run_eval llamaDownHost_def)


lemma llamaDown_alone_p3:
  "fst (callModelWithRetry_p3 llamaDownHost (js ''meta/llama3-70b-instruct'') (js ''hi'')
          JUDGE_CONFIG_maxRetries emptyWorld)
     = Inl (FetchFailed (js ''down''))"
  "fst (callModelWithRetry_p3 llamaDownHost (js ''google/gemma-7b'') (js ''hi'')
          JUDGE_CONFIG_maxRetries emptyWorld)
     = Inr (JStr (js ''a reply of more than twenty units''))"
  "fst (callModelWithRetry_p3 llamaDownHost (js ''deepseek-ai/deepseek-r1-distill-llama-8b'')
          (js ''hi'') JUDGE_CONFIG_maxRetries emptyWorld)
     = Inr (JStr (js ''a reply of more than twenty units''))"
  by (simp_all add: fan_eval run_eval llamaDownHost_def)

theorem fanOut_candidates_in_registry_order_witness:
  "fst (callModelWithRetry_mlc llamaDownHost (js ''meta/llama3-70b-instruct'') (js ''hi'') 2
          emptyWorld) = Inl (FetchFailed (js ''down''))
   \<and> map cand_model (fst (fanOut_mlc llamaDownHost (js ''hi'') emptyWorld))
     = [js ''google/gemma-7b'', js ''deepseek-ai/deepseek-r1-distill-llama-8b'']
   \<and> map cand_model (fst (getModelResponses llamaDownHost (js ''hi'') emptyWorld))
     = [js ''google/gemma-7b'', js ''deepseek-ai/deepseek-r1-distill-llama-8b'']
   \<and> map cand_model (fst (fanOut_mlc staggeredHost (js ''hi'') emptyWorld)) = MODEL_LIST
   \<and> map cand_model (fst (getModelResponses staggeredHost (js ''hi'') emptyWorld)) = MODEL_LIST
   \<and> subseq [js ''google/gemma-7b'', js ''deepseek-ai/deepseek-r1-distill-llama-8b''] MODEL_LIST"
proof -
  note inst = fanOut_candidates_in_registry_order
    [of "\<lambda>model. callModelWithRetry_mlc llamaDownHost model (js ''hi'') 2" emptyWorld
        llamaDownHost "js ''hi''"]
  have long: "atLeast20 h' (JNum (of_nat (length (js ''a reply of more than twenty units''))))"
    for h'
    by (simp add: atLeast20_def js_def)
  from inst have "map cand_model (fst (fanOut_mlc llamaDownHost (js ''hi'') emptyWorld))
       = filter (\<lambda>model. kept_mlc (fst (callModelWithRetry_mlc llamaDownHost model (js ''hi'') 2
                                           emptyWorld))) MODEL_LIST"
    by blast
  then have a: "map cand_model (fst (fanOut_mlc llamaDownHost (js ''hi'') emptyWorld))
     = [js ''google/gemma-7b'', js ''deepseek-ai/deepseek-r1-distill-llama-8b'']"
    by (simp add: MODEL_LIST_def llamaDown_alone kept_mlc_def js_eq_Nil)
  from inst have "map cand_model (fst (getModelResponses llamaDownHost (js ''hi'') emptyWorld))
       = filter (\<lambda>model. kept_p3 llamaDownHost
                   (fst (callModelWithRetry_p3 llamaDownHost model (js ''hi'')
                           JUDGE_CONFIG_maxRetries emptyWorld))) MODEL_LIST"
    by blast
  then have b: "map cand_model (fst (getModelResponses llamaDownHost (js ''hi'') emptyWorld))
     = [js ''google/gemma-7b'', js ''deepseek-ai/deepseek-r1-distill-llama-8b'']"
    by (simp add: MODEL_LIST_def llamaDown_alone_p3 kept_p3_def long)
  from inst have "subseq (map cand_model (fst (fanOut_mlc llamaDownHost (js ''hi'') emptyWorld)))
                    MODEL_LIST"
    by blast
  then have c: "subseq [js ''google/gemma-7b'', js ''deepseek-ai/deepseek-r1-distill-llama-8b'']
                  MODEL_LIST"
    by (simp only: a)
  from a b c llamaDown_alone(1) staggered_mlc staggered_p3 show ?thesis by blast
qed

end
